theory Spec2Isabelle
  imports Main "HOL-Library.Sublist"
begin

section \<open>Shared types (types.ts)\<close>

text \<open>
  The repository is a facade over two document-store clients. The model follows the
  TypeScript sources: \<open>types.ts\<close> (the enumeration and the result envelope),
  \<open>mongo/index.ts\<close> (class MongoDB), the \<open>firebase\<close> module (class Firebase) and
  \<open>index.ts\<close> (class DB).

  A JavaScript function either returns a value or throws one, and what it throws need
  not be an \<open>Error\<close> object: the sources test \<open>error instanceof Error\<close>. A thrown
  value is therefore either an \<open>Error\<close> with its message or some other value.
\<close>

datatype ConnectionStatus = DISCONNECTED | CONNECTING | CONNECTED | RECONNECTING | ERROR

fun status_value :: "ConnectionStatus \<Rightarrow> string" where
  "status_value DISCONNECTED = ''disconnected''"
| "status_value CONNECTING = ''connecting''"
| "status_value CONNECTED = ''connected''"
| "status_value RECONNECTING = ''reconnecting''"
| "status_value ERROR = ''error''"

datatype js_error = Error (error_message: string)

datatype thrown = ThrownError js_error | ThrownValue string

text \<open>\<open>error instanceof Error ? error : new Error(errorMessage)\<close>\<close>

fun as_Error :: "string \<Rightarrow> thrown \<Rightarrow> js_error" where
  "as_Error errorMessage (ThrownError e) = e"
| "as_Error errorMessage (ThrownValue v) = Error errorMessage"

text \<open>\<open>error instanceof Error ? error.message : 'Unknown error'\<close>\<close>

fun message_or_unknown :: "thrown \<Rightarrow> string" where
  "message_or_unknown (ThrownError e) = error_message e"
| "message_or_unknown (ThrownValue v) = ''Unknown error''"

record 'a OperationResult =
  success :: bool
  data :: "'a option"
  error :: "js_error option"
  message :: "string option"

definition ok_data :: "'a \<Rightarrow> 'a OperationResult" where
  "ok_data d = \<lparr>success = True, data = Some d, error = None, message = None\<rparr>"

definition ok_message :: "string \<Rightarrow> 'a OperationResult" where
  "ok_message m = \<lparr>success = True, data = None, error = None, message = Some m\<rparr>"

definition failure :: "js_error \<Rightarrow> 'a OperationResult" where
  "failure e = \<lparr>success = False, data = None, error = Some e, message = None\<rparr>"

text \<open>
  The Logger is supplied by the caller (or is the default one, which forwards to the
  console). Its four methods are caller code: a call returns or throws. A logger is
  modelled by that, as a function of the method and the message; the further arguments
  of a call are not modelled.
\<close>

datatype log_level = L_info | L_error | L_warn | L_debug

type_synonym Logger = "log_level \<Rightarrow> string \<Rightarrow> thrown option"

definition createDefaultLogger :: Logger where
  "createDefaultLogger = (\<lambda>level msg. None)"

text \<open>\<open>logger || this.createDefaultLogger()\<close>\<close>

fun logger_or_default :: "Logger option \<Rightarrow> Logger" where
  "logger_or_default None = createDefaultLogger"
| "logger_or_default (Some lg) = lg"

text \<open>A method of a logger returns normally on every message.\<close>

definition returns_normally :: "Logger \<Rightarrow> log_level \<Rightarrow> bool" where
  "returns_normally lg level = (\<forall>msg. lg level msg = None)"

text \<open>Numbers inside template strings.\<close>

function show_nat :: "nat \<Rightarrow> string" where
  "show_nat n =
     (if n < 10 then [''0123456789'' ! n]
      else show_nat (n div 10) @ [''0123456789'' ! (n mod 10)])"
  by pat_completeness auto
termination
  by (relation "measure id") auto

definition show_int :: "int \<Rightarrow> string" where
  "show_int i = (if i < 0 then ''-'' @ show_nat (nat (- i)) else show_nat (nat i))"

type_synonym json = string
type_synonym Document = "(string \<times> json) list"
type_synonym MongoQuery = Document
type_synonym MongoUpdate = "(string \<times> Document) list"

section \<open>Programs that may throw\<close>

text \<open>
  A method body is a function from the object's state to a result and the new state.
  The result is \<open>Inl\<close> of the thrown value when the body throws, \<open>Inr\<close> of the
  returned value otherwise. Assignments made before a throw stay in the state.
\<close>

type_synonym ('s, 'a) prog = "'s \<Rightarrow> (thrown + 'a) \<times> 's"

definition ret :: "'a \<Rightarrow> ('s, 'a) prog" where
  "ret x = (\<lambda>s. (Inr x, s))"

definition throw :: "thrown \<Rightarrow> ('s, 'a) prog" where
  "throw e = (\<lambda>s. (Inl e, s))"

definition andThen :: "('s, 'a) prog \<Rightarrow> ('a \<Rightarrow> ('s, 'b) prog) \<Rightarrow> ('s, 'b) prog" where
  "andThen m f = (\<lambda>s. case m s of (Inl e, s') \<Rightarrow> (Inl e, s') | (Inr x, s') \<Rightarrow> f x s')"

definition try_catch :: "('s, 'a) prog \<Rightarrow> (thrown \<Rightarrow> ('s, 'a) prog) \<Rightarrow> ('s, 'a) prog" where
  "try_catch m h = (\<lambda>s. case m s of (Inl e, s') \<Rightarrow> h e s' | (Inr x, s') \<Rightarrow> (Inr x, s'))"

definition assign :: "('s \<Rightarrow> 's) \<Rightarrow> ('s, unit) prog" where
  "assign f = (\<lambda>s. (Inr (), f s))"

definition reads :: "('s \<Rightarrow> 'a) \<Rightarrow> ('s, 'a) prog" where
  "reads f = (\<lambda>s. (Inr (f s), s))"


section \<open>The wrapped MongoDB driver\<close>

text \<open>
  The driver (package \<open>mongodb\<close>) is not part of the repository. Its behaviour is a
  parameter of the model: for every call the adapter makes, whether the call throws
  (or its promise rejects), which lifecycle events the client emits while the call is
  in progress, and which value it yields otherwise. Each call the adapter makes is
  recorded in the adapter state with the adapter's status at that moment, so that
  "the driver is not invoked" is a statement about that record. The adapter state
  also records, in \<open>seen\<close>, the status at each call of the logger: together with the
  record of driver calls these are the moments at which control leaves the adapter
  and other code can look at the status.
\<close>

record MongoClientOptions =
  maxPoolSize :: int
  minPoolSize :: int
  maxIdleTimeMS :: int
  serverSelectionTimeoutMS :: int
  socketTimeoutMS :: int
  retryWrites :: bool
  retryReads :: bool

record MongoDBOptions_options =
  o_maxPoolSize :: "int option"
  o_minPoolSize :: "int option"
  o_maxIdleTimeMS :: "int option"
  o_serverSelectionTimeoutMS :: "int option"
  o_socketTimeoutMS :: "int option"
  o_retryWrites :: "bool option"
  o_retryReads :: "bool option"

record MongoDBOptions =
  uri :: string
  dbName_opt :: string
  options :: "MongoDBOptions_options option"

datatype Db = Db string
datatype Collection = Collection Db string
datatype ObjectId = ObjectId string

fun toString :: "ObjectId \<Rightarrow> string" where
  "toString (ObjectId h) = h"

datatype cursor_step = Sort "(string \<times> int) list" | Skip int | Limit int
datatype FindCursor = FindCursor Collection MongoQuery "cursor_step list"

fun cursor_with :: "FindCursor \<Rightarrow> cursor_step \<Rightarrow> FindCursor" where
  "cursor_with (FindCursor c q steps) st = FindCursor c q (steps @ [st])"

record IndexOptions =
  ix_unique :: "bool option"
  ix_background :: "bool option"
  ix_name :: "string option"

datatype client_call =
    NewMongoClient string MongoClientOptions
  | ClientOn string
  | ClientConnect
  | ClientDb string
  | ClientClose
  | DbCollection Db string
  | CollInsertOne Collection Document
  | CollInsertMany Collection "Document list"
  | CollFind Collection MongoQuery
  | CursorSort FindCursor "(string \<times> int) list"
  | CursorSkip FindCursor int
  | CursorLimit FindCursor int
  | CursorToArray FindCursor
  | CollFindOne Collection MongoQuery
  | CollUpdateOne Collection MongoQuery MongoUpdate
  | CollUpdateMany Collection MongoQuery MongoUpdate
  | CollDeleteOne Collection MongoQuery
  | CollDeleteMany Collection MongoQuery
  | CollCountDocuments Collection MongoQuery
  | CollCreateIndex Collection "(string \<times> int) list" IndexOptions

datatype client_event =
    connectionPoolCreated | connectionPoolClosed | serverOpening | serverClosed
  | error_event thrown

record DriverInsertOneResult =
  d_insertedId :: ObjectId
  d_acknowledged :: bool

record DriverInsertManyResult =
  d_insertedIds :: "ObjectId list"
  d_insertedCount :: int

record DriverUpdateResult =
  d_u_acknowledged :: bool
  d_modifiedCount :: int
  d_matchedCount :: int
  d_upsertedCount :: "int option"
  d_upsertedId :: "ObjectId option"

record DriverDeleteResult =
  d_d_acknowledged :: bool
  d_deletedCount :: int

record driver =
  fails :: "client_call \<Rightarrow> thrown option"
  emits :: "client_call \<Rightarrow> client_event list"
  insertOne_result :: "client_call \<Rightarrow> DriverInsertOneResult"
  insertMany_result :: "client_call \<Rightarrow> DriverInsertManyResult"
  toArray_result :: "client_call \<Rightarrow> Document list"
  findOne_result :: "client_call \<Rightarrow> Document option"
  update_result :: "client_call \<Rightarrow> DriverUpdateResult"
  delete_result :: "client_call \<Rightarrow> DriverDeleteResult"
  countDocuments_result :: "client_call \<Rightarrow> int"
  createIndex_result :: "client_call \<Rightarrow> string"

section \<open>class MongoDB (mongo/index.ts)\<close>

record MongoDB =
  db :: "Db option"
  dbName :: string
  connectionStatus :: ConnectionStatus
  reconnectAttempts :: nat
  maxReconnectAttempts :: nat
  logger :: Logger
  client_calls :: "(client_call \<times> ConnectionStatus) list"
  seen :: "ConnectionStatus list"

text \<open>\<open>this.logger.info(...)\<close>, \<open>.error\<close>, \<open>.warn\<close>, \<open>.debug\<close>\<close>

definition log :: "log_level \<Rightarrow> string \<Rightarrow> (MongoDB, unit) prog" where
  "log level msg = (\<lambda>s.
     ((case logger s level msg of Some e \<Rightarrow> Inl e | None \<Rightarrow> Inr ()),
      s\<lparr>seen := seen s @ [connectionStatus s]\<rparr>))"

text \<open>
  The listeners registered by \<open>setupEventListeners\<close>. What a listener throws goes to
  the driver that emitted the event, not to a caller of the adapter; the adapter keeps
  the state the listener left.
\<close>

fun listener :: "client_event \<Rightarrow> (MongoDB, unit) prog" where
  "listener connectionPoolCreated = log L_debug ''MongoDB connection pool created''"
| "listener connectionPoolClosed = log L_debug ''MongoDB connection pool closed''"
| "listener serverOpening =
     andThen (assign (\<lambda>s. s\<lparr>connectionStatus := CONNECTING\<rparr>)) (\<lambda>_.
     log L_debug ''MongoDB server opening'')"
| "listener serverClosed =
     andThen (assign (\<lambda>s. s\<lparr>connectionStatus := DISCONNECTED\<rparr>)) (\<lambda>_.
     log L_debug ''MongoDB server closed'')"
| "listener (error_event e) =
     andThen (assign (\<lambda>s. s\<lparr>connectionStatus := ERROR\<rparr>)) (\<lambda>_.
     log L_error ''MongoDB client error:'')"

definition on_event :: "client_event \<Rightarrow> MongoDB \<Rightarrow> MongoDB" where
  "on_event e s = snd (listener e s)"

text \<open>
  A call on the driver: the call is recorded, the listeners of the events emitted
  meanwhile run, and the call throws or yields its value.
\<close>

definition client_call :: "driver \<Rightarrow> client_call \<Rightarrow> 'a \<Rightarrow> (MongoDB, 'a) prog" where
  "client_call drv c v = (\<lambda>s.
     ((case fails drv c of Some e \<Rightarrow> Inl e | None \<Rightarrow> Inr v),
      fold on_event (emits drv c)
        (s\<lparr>client_calls := client_calls s @ [(c, connectionStatus s)]\<rparr>)))"

text \<open>\<open>x || d\<close> on an optional number: \<open>undefined\<close> and \<open>0\<close> are falsy.\<close>

fun or_default :: "int option \<Rightarrow> int \<Rightarrow> int" where
  "or_default None d = d"
| "or_default (Some n) d = (if n = 0 then d else n)"

text \<open>\<open>x ?? d\<close>\<close>

fun nullish_default :: "'a option \<Rightarrow> 'a \<Rightarrow> 'a" where
  "nullish_default None d = d"
| "nullish_default (Some x) d = x"

definition clientOptions :: "MongoDBOptions \<Rightarrow> MongoClientOptions" where
  "clientOptions opts =
     \<lparr>maxPoolSize = or_default (Option.bind (options opts) o_maxPoolSize) 10,
      minPoolSize = or_default (Option.bind (options opts) o_minPoolSize) 2,
      maxIdleTimeMS = or_default (Option.bind (options opts) o_maxIdleTimeMS) 30000,
      serverSelectionTimeoutMS =
        or_default (Option.bind (options opts) o_serverSelectionTimeoutMS) 5000,
      socketTimeoutMS = or_default (Option.bind (options opts) o_socketTimeoutMS) 45000,
      retryWrites = nullish_default (Option.bind (options opts) o_retryWrites) True,
      retryReads = nullish_default (Option.bind (options opts) o_retryReads) True\<rparr>"

definition MongoDB_fields :: MongoDB where
  "MongoDB_fields =
     \<lparr>db = None, dbName = [], connectionStatus = DISCONNECTED, reconnectAttempts = 0,
      maxReconnectAttempts = 5, logger = createDefaultLogger, client_calls = [],
      seen = []\<rparr>"

definition setupEventListeners :: "driver \<Rightarrow> (MongoDB, unit) prog" where
  "setupEventListeners drv =
     andThen (client_call drv (ClientOn ''connectionPoolCreated'') ()) (\<lambda>_.
     andThen (client_call drv (ClientOn ''connectionPoolClosed'') ()) (\<lambda>_.
     andThen (client_call drv (ClientOn ''serverOpening'') ()) (\<lambda>_.
     andThen (client_call drv (ClientOn ''serverClosed'') ()) (\<lambda>_.
     client_call drv (ClientOn ''error'') ()))))"

definition MongoDB_constructor ::
  "driver \<Rightarrow> MongoDBOptions \<Rightarrow> Logger option \<Rightarrow> (MongoDB, unit) prog" where
  "MongoDB_constructor drv opts lg =
     andThen (assign (\<lambda>s. s\<lparr>dbName := dbName_opt opts\<rparr>)) (\<lambda>_.
     andThen (assign (\<lambda>s. s\<lparr>logger := logger_or_default lg\<rparr>)) (\<lambda>_.
     andThen (client_call drv (NewMongoClient (uri opts) (clientOptions opts)) ()) (\<lambda>_.
     setupEventListeners drv)))"

text \<open>\<open>new MongoDB(options, logger)\<close>: the object exists only if the constructor returns.\<close>

definition new_MongoDB :: "driver \<Rightarrow> MongoDBOptions \<Rightarrow> Logger option \<Rightarrow> thrown + MongoDB" where
  "new_MongoDB drv opts lg =
     (case MongoDB_constructor drv opts lg MongoDB_fields of
        (Inl e, s) \<Rightarrow> Inl e
      | (Inr u, s) \<Rightarrow> Inr s)"

text \<open>
  The catch block of the CRUD methods: \<open>this.logger.error(errorMessage, error)\<close>, then
  the failed envelope.
\<close>

definition report :: "string \<Rightarrow> thrown \<Rightarrow> (MongoDB, 'a OperationResult) prog" where
  "report errorMessage err =
     andThen (log L_error errorMessage) (\<lambda>_.
     ret (failure (as_Error errorMessage err)))"

definition connect :: "driver \<Rightarrow> (MongoDB, unit OperationResult) prog" where
  "connect drv =
     try_catch
       (andThen (assign (\<lambda>s. s\<lparr>connectionStatus := CONNECTING\<rparr>)) (\<lambda>_.
        andThen (log L_info ''Connecting to MongoDB...'') (\<lambda>_.
        andThen (client_call drv ClientConnect ()) (\<lambda>_.
        andThen (reads dbName) (\<lambda>n.
        andThen (client_call drv (ClientDb n) (Db n)) (\<lambda>h.
        andThen (assign (\<lambda>s. s\<lparr>db := Some h\<rparr>)) (\<lambda>_.
        andThen (assign (\<lambda>s. s\<lparr>connectionStatus := CONNECTED\<rparr>)) (\<lambda>_.
        andThen (assign (\<lambda>s. s\<lparr>reconnectAttempts := 0\<rparr>)) (\<lambda>_.
        andThen (log L_info (''Successfully connected to MongoDB database: '' @ n)) (\<lambda>_.
        ret (ok_message ''Connected to MongoDB'')))))))))))
       (\<lambda>err.
        andThen (assign (\<lambda>s. s\<lparr>connectionStatus := ERROR\<rparr>)) (\<lambda>_.
        report (''Failed to connect to MongoDB: '' @ message_or_unknown err) err))"

definition disconnect :: "driver \<Rightarrow> (MongoDB, unit OperationResult) prog" where
  "disconnect drv =
     try_catch
       (andThen (log L_info ''Disconnecting from MongoDB...'') (\<lambda>_.
        andThen (client_call drv ClientClose ()) (\<lambda>_.
        andThen (assign (\<lambda>s. s\<lparr>connectionStatus := DISCONNECTED\<rparr>)) (\<lambda>_.
        andThen (assign (\<lambda>s. s\<lparr>db := None\<rparr>)) (\<lambda>_.
        andThen (log L_info ''Successfully disconnected from MongoDB'') (\<lambda>_.
        ret (ok_message ''Disconnected from MongoDB'')))))))
       (\<lambda>err. report (''Error disconnecting from MongoDB: '' @ message_or_unknown err) err)"

definition getConnectionStatus :: "MongoDB \<Rightarrow> ConnectionStatus" where
  "getConnectionStatus s = connectionStatus s"

definition isConnected :: "MongoDB \<Rightarrow> bool" where
  "isConnected s = (connectionStatus s = CONNECTED \<and> db s \<noteq> None)"

definition getCollection :: "driver \<Rightarrow> string \<Rightarrow> (MongoDB, Collection) prog" where
  "getCollection drv collectionName =
     andThen (reads db) (\<lambda>d.
       case d of
         None \<Rightarrow> throw (ThrownError (Error ''Not connected to MongoDB. Call connect() first.''))
       | Some h \<Rightarrow> client_call drv (DbCollection h collectionName) (Collection h collectionName))"

text \<open>The guard that opens every CRUD method.\<close>

definition require_connected :: "(MongoDB, unit) prog" where
  "require_connected =
     andThen (reads isConnected) (\<lambda>c.
       if \<not> c then throw (ThrownError (Error ''Not connected to MongoDB'')) else ret ())"

record InsertResult =
  insertedId :: string
  acknowledged :: bool

definition insertOne ::
  "driver \<Rightarrow> string \<Rightarrow> Document \<Rightarrow> (MongoDB, InsertResult OperationResult) prog" where
  "insertOne drv collectionName document =
     try_catch
       (andThen require_connected (\<lambda>_.
        andThen (getCollection drv collectionName) (\<lambda>collection.
        let c = CollInsertOne collection document in
        andThen (client_call drv c (insertOne_result drv c)) (\<lambda>result.
        andThen (log L_debug (''Document inserted into '' @ collectionName @ '':'')) (\<lambda>_.
        ret (ok_data
          \<lparr>insertedId = toString (d_insertedId result),
           acknowledged = d_acknowledged result\<rparr>))))))
       (\<lambda>err. report (''Error inserting document into '' @ collectionName) err)"

record InsertManyResult =
  insertedIds :: "string list"
  insertedCount :: int

definition insertMany ::
  "driver \<Rightarrow> string \<Rightarrow> Document list \<Rightarrow>
   (MongoDB, InsertManyResult OperationResult) prog" where
  "insertMany drv collectionName documents =
     try_catch
       (andThen require_connected (\<lambda>_.
        andThen (getCollection drv collectionName) (\<lambda>collection.
        let c = CollInsertMany collection documents in
        andThen (client_call drv c (insertMany_result drv c)) (\<lambda>result.
        andThen (log L_debug (show_nat (length documents) @ '' documents inserted into '' @ collectionName)) (\<lambda>_.
        ret (ok_data
          \<lparr>insertedIds = map toString (d_insertedIds result),
           insertedCount = d_insertedCount result\<rparr>))))))
       (\<lambda>err. report (''Error inserting documents into '' @ collectionName) err)"

record FindOptions =
  limit :: "int option"
  skip :: "int option"
  sort :: "(string \<times> int) list option"

text \<open>\<open>if (options.skip)\<close> and \<open>if (options.limit)\<close>: a number is truthy unless it is 0.\<close>

fun truthy_number :: "int option \<Rightarrow> int option" where
  "truthy_number None = None"
| "truthy_number (Some n) = (if n = 0 then None else Some n)"

definition find ::
  "driver \<Rightarrow> string \<Rightarrow> MongoQuery \<Rightarrow> FindOptions \<Rightarrow>
   (MongoDB, Document list OperationResult) prog" where
  "find drv collectionName query opts =
     try_catch
       (andThen require_connected (\<lambda>_.
        andThen (getCollection drv collectionName) (\<lambda>collection.
        andThen (client_call drv (CollFind collection query)
                   (FindCursor collection query [])) (\<lambda>cursor0.
        andThen (case sort opts of
                   Some sp \<Rightarrow> client_call drv (CursorSort cursor0 sp) (cursor_with cursor0 (Sort sp))
                 | None \<Rightarrow> ret cursor0) (\<lambda>cursor1.
        andThen (case truthy_number (skip opts) of
                   Some n \<Rightarrow> client_call drv (CursorSkip cursor1 n) (cursor_with cursor1 (Skip n))
                 | None \<Rightarrow> ret cursor1) (\<lambda>cursor2.
        andThen (case truthy_number (limit opts) of
                   Some n \<Rightarrow> client_call drv (CursorLimit cursor2 n) (cursor_with cursor2 (Limit n))
                 | None \<Rightarrow> ret cursor2) (\<lambda>cursor.
        andThen (client_call drv (CursorToArray cursor)
                   (toArray_result drv (CursorToArray cursor))) (\<lambda>documents.
        andThen (log L_debug (''Found '' @ show_nat (length documents) @ '' documents in '' @ collectionName)) (\<lambda>_.
        ret (ok_data documents))))))))))
       (\<lambda>err. report (''Error finding documents in '' @ collectionName) err)"

definition findOne ::
  "driver \<Rightarrow> string \<Rightarrow> MongoQuery \<Rightarrow> (MongoDB, Document option OperationResult) prog" where
  "findOne drv collectionName query =
     try_catch
       (andThen require_connected (\<lambda>_.
        andThen (getCollection drv collectionName) (\<lambda>collection.
        let c = CollFindOne collection query in
        andThen (client_call drv c (findOne_result drv c)) (\<lambda>document.
        andThen (log L_debug (''Found document in '' @ collectionName @ '':'')) (\<lambda>_.
        ret (ok_data document))))))
       (\<lambda>err. report (''Error finding document in '' @ collectionName) err)"

record UpdateResult =
  u_acknowledged :: bool
  modifiedCount :: int
  matchedCount :: int
  upsertedCount :: int
  upsertedId :: "string option"

definition updateResult :: "DriverUpdateResult \<Rightarrow> UpdateResult" where
  "updateResult result =
     \<lparr>u_acknowledged = d_u_acknowledged result,
      modifiedCount = d_modifiedCount result,
      matchedCount = d_matchedCount result,
      upsertedCount = or_default (d_upsertedCount result) 0,
      upsertedId = map_option toString (d_upsertedId result)\<rparr>"

definition updateOne ::
  "driver \<Rightarrow> string \<Rightarrow> MongoQuery \<Rightarrow> MongoUpdate \<Rightarrow>
   (MongoDB, UpdateResult OperationResult) prog" where
  "updateOne drv collectionName query update =
     try_catch
       (andThen require_connected (\<lambda>_.
        andThen (getCollection drv collectionName) (\<lambda>collection.
        let c = CollUpdateOne collection query update in
        andThen (client_call drv c (update_result drv c)) (\<lambda>result.
        andThen (log L_debug (''Document updated in '' @ collectionName @ '':'')) (\<lambda>_.
        ret (ok_data (updateResult result)))))))
       (\<lambda>err. report (''Error updating document in '' @ collectionName) err)"

definition updateMany ::
  "driver \<Rightarrow> string \<Rightarrow> MongoQuery \<Rightarrow> MongoUpdate \<Rightarrow>
   (MongoDB, UpdateResult OperationResult) prog" where
  "updateMany drv collectionName query update =
     try_catch
       (andThen require_connected (\<lambda>_.
        andThen (getCollection drv collectionName) (\<lambda>collection.
        let c = CollUpdateMany collection query update in
        andThen (client_call drv c (update_result drv c)) (\<lambda>result.
        andThen (log L_debug (''Documents updated in '' @ collectionName @ '':'')) (\<lambda>_.
        ret (ok_data (updateResult result)))))))
       (\<lambda>err. report (''Error updating documents in '' @ collectionName) err)"

record DeleteResult =
  dl_acknowledged :: bool
  deletedCount :: int

definition deleteResult :: "DriverDeleteResult \<Rightarrow> DeleteResult" where
  "deleteResult result =
     \<lparr>dl_acknowledged = d_d_acknowledged result, deletedCount = d_deletedCount result\<rparr>"

definition deleteOne ::
  "driver \<Rightarrow> string \<Rightarrow> MongoQuery \<Rightarrow> (MongoDB, DeleteResult OperationResult) prog" where
  "deleteOne drv collectionName query =
     try_catch
       (andThen require_connected (\<lambda>_.
        andThen (getCollection drv collectionName) (\<lambda>collection.
        let c = CollDeleteOne collection query in
        andThen (client_call drv c (delete_result drv c)) (\<lambda>result.
        andThen (log L_debug (''Document deleted from '' @ collectionName @ '':'')) (\<lambda>_.
        ret (ok_data (deleteResult result)))))))
       (\<lambda>err. report (''Error deleting document from '' @ collectionName) err)"

definition deleteMany ::
  "driver \<Rightarrow> string \<Rightarrow> MongoQuery \<Rightarrow> (MongoDB, DeleteResult OperationResult) prog" where
  "deleteMany drv collectionName query =
     try_catch
       (andThen require_connected (\<lambda>_.
        andThen (getCollection drv collectionName) (\<lambda>collection.
        let c = CollDeleteMany collection query in
        andThen (client_call drv c (delete_result drv c)) (\<lambda>result.
        andThen (log L_debug (''Documents deleted from '' @ collectionName @ '':'')) (\<lambda>_.
        ret (ok_data (deleteResult result)))))))
       (\<lambda>err. report (''Error deleting documents from '' @ collectionName) err)"

definition countDocuments ::
  "driver \<Rightarrow> string \<Rightarrow> MongoQuery \<Rightarrow> (MongoDB, int OperationResult) prog" where
  "countDocuments drv collectionName query =
     try_catch
       (andThen require_connected (\<lambda>_.
        andThen (getCollection drv collectionName) (\<lambda>collection.
        let c = CollCountDocuments collection query in
        andThen (client_call drv c (countDocuments_result drv c)) (\<lambda>count.
        andThen (log L_debug (''Counted '' @ show_int count @ '' documents in '' @ collectionName)) (\<lambda>_.
        ret (ok_data count))))))
       (\<lambda>err. report (''Error counting documents in '' @ collectionName) err)"

definition createIndex ::
  "driver \<Rightarrow> string \<Rightarrow> (string \<times> int) list \<Rightarrow> IndexOptions \<Rightarrow>
   (MongoDB, string OperationResult) prog" where
  "createIndex drv collectionName indexSpec opts =
     try_catch
       (andThen require_connected (\<lambda>_.
        andThen (getCollection drv collectionName) (\<lambda>collection.
        let c = CollCreateIndex collection indexSpec opts in
        andThen (client_call drv c (createIndex_result drv c)) (\<lambda>indexName.
        andThen (log L_debug (''Index created on '' @ collectionName @ '':'')) (\<lambda>_.
        ret (ok_data indexName))))))
       (\<lambda>err. report (''Error creating index on '' @ collectionName) err)"

text \<open>
  The legacy methods. \<open>throw result.error || new Error(...)\<close>: the envelope's error
  when there is one, a fresh Error otherwise.
\<close>

definition error_or :: "'a OperationResult \<Rightarrow> string \<Rightarrow> thrown" where
  "error_or result msg =
     (case error result of Some e \<Rightarrow> ThrownError e | None \<Rightarrow> ThrownError (Error msg))"

definition addDocument :: "driver \<Rightarrow> string \<Rightarrow> Document \<Rightarrow> (MongoDB, unit) prog" where
  "addDocument drv collectionName d =
     andThen (insertOne drv collectionName d) (\<lambda>result.
       if \<not> success result then throw (error_or result ''Failed to insert document'')
       else ret ())"

definition getDocuments ::
  "driver \<Rightarrow> string \<Rightarrow> MongoQuery \<Rightarrow> (MongoDB, Document list) prog" where
  "getDocuments drv collectionName query =
     andThen (find drv collectionName query \<lparr>limit = None, skip = None, sort = None\<rparr>)
       (\<lambda>result.
       if \<not> success result then throw (error_or result ''Failed to find documents'')
       else ret (case data result of Some ds \<Rightarrow> ds | None \<Rightarrow> []))"

definition deleteDocument :: "driver \<Rightarrow> string \<Rightarrow> MongoQuery \<Rightarrow> (MongoDB, unit) prog" where
  "deleteDocument drv collectionName query =
     andThen (deleteOne drv collectionName query) (\<lambda>result.
       if \<not> success result then throw (error_or result ''Failed to delete document'')
       else ret ())"

definition updateDocument ::
  "driver \<Rightarrow> string \<Rightarrow> MongoQuery \<Rightarrow> Document \<Rightarrow> (MongoDB, unit) prog" where
  "updateDocument drv collectionName query update =
     andThen (updateOne drv collectionName query [(''$set'', update)]) (\<lambda>result.
       if \<not> success result then throw (error_or result ''Failed to update document'')
       else ret ())"

section \<open>The wrapped Firebase Admin SDK\<close>

text \<open>
  The SDK (package \<open>firebase-admin\<close>) is not part of the repository either. As for
  the driver, its behaviour is a parameter: how many apps are registered
  (\<open>admin.apps.length\<close>), which calls throw, and what the others yield. The calls the
  adapter makes are recorded in the adapter state, and so is, in \<open>fb_seen\<close>, the
  status at each call of the SDK and of the logger.
\<close>

record FirebaseOptions =
  serviceAccount :: string
  databaseURL :: "string option"
  storageBucket :: "string option"

datatype Firestore = Firestore

record DocumentSnapshot =
  snap_exists :: bool
  snap_id :: string
  snap_data :: "Document option"

record WhereCondition =
  w_field :: string
  w_operator :: string
  w_value :: json

record OrderBy =
  ob_field :: string
  ob_direction :: "string option"

datatype query_step =
    QWhere WhereCondition | QOrderBy string string | QLimit int | QStartAfter DocumentSnapshot

datatype Query = Query string "query_step list"

fun query_with :: "Query \<Rightarrow> query_step \<Rightarrow> Query" where
  "query_with (Query p steps) st = Query p (steps @ [st])"

record SetOptions =
  merge :: "bool option"

datatype batch_write =
    BatchSet string "Document option" SetOptions
  | BatchUpdate string "Document option"
  | BatchDelete string

datatype sdk_call =
    CredentialCert string
  | InitializeApp FirebaseOptions
  | AdminFirestore
  | FirestoreDoc string
  | RefGet string
  | RefSet string Document SetOptions
  | RefUpdate string Document
  | RefDelete string
  | FirestoreCollection string
  | CollectionAdd string Document
  | QueryWhereCall Query WhereCondition
  | QueryOrderByCall Query string string
  | QueryLimitCall Query int
  | QueryStartAfterCall Query DocumentSnapshot
  | QueryGet Query
  | QueryOnSnapshot Query
  | RefOnSnapshot string
  | FirestoreBatch
  | BatchCall batch_write
  | BatchCommit
  | FirestoreRunTransaction string

record sdk =
  apps_length :: nat
  sdk_fails :: "sdk_call \<Rightarrow> thrown option"
  get_result :: "sdk_call \<Rightarrow> DocumentSnapshot"
  add_result :: "sdk_call \<Rightarrow> string"
  query_result :: "sdk_call \<Rightarrow> DocumentSnapshot list"
  transaction_result :: "sdk_call \<Rightarrow> json"

section \<open>class Firebase (the firebase module)\<close>

record Firebase =
  firestore :: "Firestore option"
  fb_connectionStatus :: ConnectionStatus
  isInitialized :: bool
  fb_logger :: Logger
  sdk_calls :: "sdk_call list"
  fb_seen :: "ConnectionStatus list"

definition sdk_call :: "sdk \<Rightarrow> sdk_call \<Rightarrow> 'a \<Rightarrow> (Firebase, 'a) prog" where
  "sdk_call k c v = (\<lambda>s.
     ((case sdk_fails k c of Some e \<Rightarrow> Inl e | None \<Rightarrow> Inr v),
      s\<lparr>sdk_calls := sdk_calls s @ [c], fb_seen := fb_seen s @ [fb_connectionStatus s]\<rparr>))"

definition fb_log :: "log_level \<Rightarrow> string \<Rightarrow> (Firebase, unit) prog" where
  "fb_log level msg = (\<lambda>s.
     ((case fb_logger s level msg of Some e \<Rightarrow> Inl e | None \<Rightarrow> Inr ()),
      s\<lparr>fb_seen := fb_seen s @ [fb_connectionStatus s]\<rparr>))"

text \<open>The catch block of the envelope methods.\<close>

definition fb_report :: "string \<Rightarrow> thrown \<Rightarrow> (Firebase, 'a OperationResult) prog" where
  "fb_report errorMessage err =
     andThen (fb_log L_error errorMessage) (\<lambda>_.
     ret (failure (as_Error errorMessage err)))"

text \<open>The field initialisers, before the constructor body runs.\<close>

definition Firebase_fields :: Firebase where
  "Firebase_fields =
     \<lparr>firestore = None, fb_connectionStatus = DISCONNECTED, isInitialized = False,
      fb_logger = createDefaultLogger, sdk_calls = [], fb_seen = []\<rparr>"

definition Firebase_constructor ::
  "sdk \<Rightarrow> FirebaseOptions \<Rightarrow> Logger option \<Rightarrow> (Firebase, unit) prog" where
  "Firebase_constructor k opts lg =
     andThen (assign (\<lambda>s. s\<lparr>fb_logger := logger_or_default lg\<rparr>)) (\<lambda>_.
     try_catch
       (andThen (if apps_length k = 0
                 then andThen (sdk_call k (CredentialCert (serviceAccount opts)) ()) (\<lambda>_.
                      sdk_call k (InitializeApp opts) ())
                 else ret ()) (\<lambda>_.
        andThen (sdk_call k AdminFirestore Firestore) (\<lambda>h.
        andThen (assign (\<lambda>s. s\<lparr>firestore := Some h\<rparr>)) (\<lambda>_.
        andThen (assign (\<lambda>s. s\<lparr>fb_connectionStatus := CONNECTED\<rparr>)) (\<lambda>_.
        andThen (assign (\<lambda>s. s\<lparr>isInitialized := True\<rparr>)) (\<lambda>_.
        fb_log L_info ''Firebase initialized successfully''))))))
       (\<lambda>err.
        andThen (assign (\<lambda>s. s\<lparr>fb_connectionStatus := ERROR\<rparr>)) (\<lambda>_.
        andThen (fb_log L_error ''Failed to initialize Firebase:'') (\<lambda>_.
        throw err))))"

text \<open>\<open>new Firebase(options, logger)\<close>\<close>

definition new_Firebase :: "sdk \<Rightarrow> FirebaseOptions \<Rightarrow> Logger option \<Rightarrow> thrown + Firebase" where
  "new_Firebase k opts lg =
     (case Firebase_constructor k opts lg Firebase_fields of
        (Inl e, s) \<Rightarrow> Inl e
      | (Inr u, s) \<Rightarrow> Inr s)"

definition Firebase_getConnectionStatus :: "Firebase \<Rightarrow> ConnectionStatus" where
  "Firebase_getConnectionStatus s = fb_connectionStatus s"

definition Firebase_isConnected :: "Firebase \<Rightarrow> bool" where
  "Firebase_isConnected s = (fb_connectionStatus s = CONNECTED \<and> isInitialized s)"

definition require_initialized :: "(Firebase, unit) prog" where
  "require_initialized =
     andThen (reads Firebase_isConnected) (\<lambda>c.
       if \<not> c then throw (ThrownError (Error ''Firebase not initialized'')) else ret ())"

text \<open>
  \<open>this.firestore.m(...)\<close>: a method call on the handle. Calling a method on a field
  that was never assigned is a TypeError.
\<close>

definition firestore_call :: "sdk \<Rightarrow> sdk_call \<Rightarrow> 'a \<Rightarrow> (Firebase, 'a) prog" where
  "firestore_call k c v =
     andThen (reads firestore) (\<lambda>h.
       case h of
         None \<Rightarrow> throw (ThrownError (Error ''TypeError: Cannot read properties of undefined''))
       | Some _ \<Rightarrow> sdk_call k c v)"

text \<open>
  \<open>{ id: snapshot.id, ...snapshot.data() }\<close>: the spread comes second, so an
  \<open>id\<close> field of the stored data replaces the snapshot's id.
\<close>

definition with_id :: "DocumentSnapshot \<Rightarrow> Document" where
  "with_id snapshot =
     (let d = (case snap_data snapshot of None \<Rightarrow> [] | Some d \<Rightarrow> d) in
      case map_of d ''id'' of
        None \<Rightarrow> (''id'', snap_id snapshot) # d
      | Some v \<Rightarrow> (''id'', v) # filter (\<lambda>kv. fst kv \<noteq> ''id'') d)"

definition Firebase_getDocument ::
  "sdk \<Rightarrow> string \<Rightarrow> (Firebase, Document option OperationResult) prog" where
  "Firebase_getDocument k documentPath =
     try_catch
       (andThen require_initialized (\<lambda>_.
        andThen (firestore_call k (FirestoreDoc documentPath) ()) (\<lambda>_.
        andThen (sdk_call k (RefGet documentPath) (get_result k (RefGet documentPath)))
          (\<lambda>snapshot.
        if snap_exists snapshot
        then andThen (fb_log L_debug (''Document retrieved from '' @ documentPath)) (\<lambda>_.
             ret (ok_data (Some (with_id snapshot))))
        else andThen (fb_log L_debug (''Document not found at '' @ documentPath)) (\<lambda>_.
             ret (ok_data None))))))
       (\<lambda>err. fb_report (''Error getting document '' @ documentPath) err)"

definition Firebase_setDocument ::
  "sdk \<Rightarrow> string \<Rightarrow> Document \<Rightarrow> SetOptions \<Rightarrow> (Firebase, unit OperationResult) prog" where
  "Firebase_setDocument k documentPath d opts =
     try_catch
       (andThen require_initialized (\<lambda>_.
        andThen (firestore_call k (FirestoreDoc documentPath) ()) (\<lambda>_.
        andThen (sdk_call k (RefSet documentPath d opts) ()) (\<lambda>_.
        andThen (fb_log L_debug (''Document set at '' @ documentPath)) (\<lambda>_.
        ret (ok_message ''Document set successfully''))))))
       (\<lambda>err. fb_report (''Error setting document '' @ documentPath) err)"

definition Firebase_updateDocument ::
  "sdk \<Rightarrow> string \<Rightarrow> Document \<Rightarrow> (Firebase, unit OperationResult) prog" where
  "Firebase_updateDocument k documentPath d =
     try_catch
       (andThen require_initialized (\<lambda>_.
        andThen (firestore_call k (FirestoreDoc documentPath) ()) (\<lambda>_.
        andThen (sdk_call k (RefUpdate documentPath d) ()) (\<lambda>_.
        andThen (fb_log L_debug (''Document updated at '' @ documentPath)) (\<lambda>_.
        ret (ok_message ''Document updated successfully''))))))
       (\<lambda>err. fb_report (''Error updating document '' @ documentPath) err)"

definition Firebase_deleteDocument ::
  "sdk \<Rightarrow> string \<Rightarrow> (Firebase, unit OperationResult) prog" where
  "Firebase_deleteDocument k documentPath =
     try_catch
       (andThen require_initialized (\<lambda>_.
        andThen (firestore_call k (FirestoreDoc documentPath) ()) (\<lambda>_.
        andThen (sdk_call k (RefDelete documentPath) ()) (\<lambda>_.
        andThen (fb_log L_debug (''Document deleted from '' @ documentPath)) (\<lambda>_.
        ret (ok_message ''Document deleted successfully''))))))
       (\<lambda>err. fb_report (''Error deleting document '' @ documentPath) err)"

record AddResult =
  id :: string

definition Firebase_addDocument ::
  "sdk \<Rightarrow> string \<Rightarrow> Document \<Rightarrow> (Firebase, AddResult OperationResult) prog" where
  "Firebase_addDocument k collectionPath d =
     try_catch
       (andThen require_initialized (\<lambda>_.
        andThen (firestore_call k (FirestoreCollection collectionPath) ()) (\<lambda>_.
        let c = CollectionAdd collectionPath d in
        andThen (sdk_call k c (add_result k c)) (\<lambda>docRef_id.
        andThen (fb_log L_debug (''Document added to '' @ collectionPath @ '' with ID: '' @ docRef_id)) (\<lambda>_.
        ret (ok_data \<lparr>id = docRef_id\<rparr>))))))
       (\<lambda>err. fb_report (''Error adding document to '' @ collectionPath) err)"

record QueryOptions =
  q_where :: "WhereCondition list option"
  q_orderBy :: "OrderBy option"
  q_limit :: "int option"
  q_startAfter :: "DocumentSnapshot option"

text \<open>\<open>for (const condition of options.where) query = query.where(...)\<close>\<close>

fun apply_where :: "sdk \<Rightarrow> WhereCondition list \<Rightarrow> Query \<Rightarrow> (Firebase, Query) prog" where
  "apply_where k [] q = ret q"
| "apply_where k (condition # rest) q =
     andThen (sdk_call k (QueryWhereCall q condition) (query_with q (QWhere condition)))
       (\<lambda>q'. apply_where k rest q')"

text \<open>\<open>options.orderBy.direction || 'asc'\<close>: the empty string is falsy.\<close>

fun direction_or_asc :: "string option \<Rightarrow> string" where
  "direction_or_asc None = ''asc''"
| "direction_or_asc (Some d) = (if d = [] then ''asc'' else d)"

text \<open>The part of the query building that getCollection and listenCollection share.\<close>

definition build_query :: "sdk \<Rightarrow> string \<Rightarrow> QueryOptions \<Rightarrow> (Firebase, Query) prog" where
  "build_query k collectionPath opts =
     andThen (firestore_call k (FirestoreCollection collectionPath) (Query collectionPath []))
       (\<lambda>q0.
     andThen (case q_where opts of Some conds \<Rightarrow> apply_where k conds q0 | None \<Rightarrow> ret q0)
       (\<lambda>q1.
     andThen (case q_orderBy opts of
                Some ob \<Rightarrow>
                  (let dir = direction_or_asc (ob_direction ob) in
                   sdk_call k (QueryOrderByCall q1 (ob_field ob) dir)
                     (query_with q1 (QOrderBy (ob_field ob) dir)))
              | None \<Rightarrow> ret q1)
       (\<lambda>q2.
     case truthy_number (q_limit opts) of
       Some n \<Rightarrow> sdk_call k (QueryLimitCall q2 n) (query_with q2 (QLimit n))
     | None \<Rightarrow> ret q2)))"

definition Firebase_getCollection ::
  "sdk \<Rightarrow> string \<Rightarrow> QueryOptions \<Rightarrow> (Firebase, Document list OperationResult) prog" where
  "Firebase_getCollection k collectionPath opts =
     try_catch
       (andThen require_initialized (\<lambda>_.
        andThen (build_query k collectionPath opts) (\<lambda>q3.
        andThen (case q_startAfter opts of
                   Some sn \<Rightarrow> sdk_call k (QueryStartAfterCall q3 sn) (query_with q3 (QStartAfter sn))
                 | None \<Rightarrow> ret q3) (\<lambda>q.
        andThen (sdk_call k (QueryGet q) (query_result k (QueryGet q))) (\<lambda>docs.
        andThen (fb_log L_debug (''Retrieved '' @ show_nat (length docs) @ '' documents from '' @ collectionPath)) (\<lambda>_.
        ret (ok_data (map with_id docs))))))))
       (\<lambda>err. fb_report (''Error getting collection '' @ collectionPath) err)"

datatype UnsubscribeFunction = SdkUnsubscribe sdk_call | EmptyUnsubscribe

datatype change_type = added | modified | removed

record Changes =
  c_added :: "Document list"
  c_modified :: "Document list"
  c_removed :: "Document list"

text \<open>The snapshot handler of listenCollection sorts the changes by their type.\<close>

fun push_change :: "change_type \<times> DocumentSnapshot \<Rightarrow> Changes \<Rightarrow> Changes" where
  "push_change (added, d) cs = cs\<lparr>c_added := c_added cs @ [with_id d]\<rparr>"
| "push_change (modified, d) cs = cs\<lparr>c_modified := c_modified cs @ [with_id d]\<rparr>"
| "push_change (removed, d) cs = cs\<lparr>c_removed := c_removed cs @ [with_id d]\<rparr>"

definition collection_snapshot_handler :: "(change_type \<times> DocumentSnapshot) list \<Rightarrow> Changes" where
  "collection_snapshot_handler docChanges =
     fold push_change docChanges \<lparr>c_added = [], c_modified = [], c_removed = []\<rparr>"

text \<open>The snapshot handler of listenDocument passes the document, or null.\<close>

definition document_snapshot_handler :: "DocumentSnapshot \<Rightarrow> Document option" where
  "document_snapshot_handler snapshot =
     (if snap_exists snapshot then Some (with_id snapshot) else None)"

definition Firebase_listenCollection ::
  "sdk \<Rightarrow> string \<Rightarrow> QueryOptions \<Rightarrow> (Firebase, UnsubscribeFunction) prog" where
  "Firebase_listenCollection k collectionPath opts =
     try_catch
       (andThen require_initialized (\<lambda>_.
        andThen (build_query k collectionPath opts) (\<lambda>q.
        andThen (sdk_call k (QueryOnSnapshot q) (SdkUnsubscribe (QueryOnSnapshot q)))
          (\<lambda>unsubscribe.
        andThen (fb_log L_debug (''Started listening to collection '' @ collectionPath)) (\<lambda>_.
        ret unsubscribe)))))
       (\<lambda>err.
        andThen (fb_log L_error
                   (''Error setting up listener for collection '' @ collectionPath @ '':'')) (\<lambda>_.
        ret EmptyUnsubscribe))"

definition Firebase_listenDocument ::
  "sdk \<Rightarrow> string \<Rightarrow> (Firebase, UnsubscribeFunction) prog" where
  "Firebase_listenDocument k documentPath =
     try_catch
       (andThen require_initialized (\<lambda>_.
        andThen (firestore_call k (FirestoreDoc documentPath) ()) (\<lambda>_.
        andThen (sdk_call k (RefOnSnapshot documentPath)
                   (SdkUnsubscribe (RefOnSnapshot documentPath))) (\<lambda>unsubscribe.
        andThen (fb_log L_debug (''Started listening to document '' @ documentPath)) (\<lambda>_.
        ret unsubscribe)))))
       (\<lambda>err.
        andThen (fb_log L_error
                   (''Error setting up listener for document '' @ documentPath @ '':'')) (\<lambda>_.
        ret EmptyUnsubscribe))"

datatype operation_type = op_set | op_update | op_delete

record Operation =
  op_type :: operation_type
  op_path :: string
  op_data :: "Document option"
  op_options :: "SetOptions option"

text \<open>One turn of the loop of batchWrite; \<open>operation.options || {}\<close>.\<close>

definition batch_operation :: "sdk \<Rightarrow> Operation \<Rightarrow> (Firebase, unit) prog" where
  "batch_operation k operation =
     andThen (firestore_call k (FirestoreDoc (op_path operation)) ()) (\<lambda>_.
       case op_type operation of
         op_set \<Rightarrow>
           sdk_call k (BatchCall (BatchSet (op_path operation) (op_data operation)
             (case op_options operation of Some so \<Rightarrow> so | None \<Rightarrow> \<lparr>merge = None\<rparr>))) ()
       | op_update \<Rightarrow>
           sdk_call k (BatchCall (BatchUpdate (op_path operation) (op_data operation))) ()
       | op_delete \<Rightarrow> sdk_call k (BatchCall (BatchDelete (op_path operation))) ())"

fun batch_operations :: "sdk \<Rightarrow> Operation list \<Rightarrow> (Firebase, unit) prog" where
  "batch_operations k [] = ret ()"
| "batch_operations k (operation # rest) =
     andThen (batch_operation k operation) (\<lambda>_. batch_operations k rest)"

definition Firebase_batchWrite ::
  "sdk \<Rightarrow> Operation list \<Rightarrow> (Firebase, unit OperationResult) prog" where
  "Firebase_batchWrite k operations =
     try_catch
       (andThen require_initialized (\<lambda>_.
        andThen (firestore_call k FirestoreBatch ()) (\<lambda>_.
        andThen (batch_operations k operations) (\<lambda>_.
        andThen (sdk_call k BatchCommit ()) (\<lambda>_.
        andThen (fb_log L_debug (''Batch write completed with '' @ show_nat (length operations) @ '' operations'')) (\<lambda>_.
        ret (ok_message ''Batch write completed successfully'')))))))
       (\<lambda>err. fb_report ''Error performing batch write'' err)"

definition Firebase_runTransaction ::
  "sdk \<Rightarrow> string \<Rightarrow> (Firebase, json OperationResult) prog" where
  "Firebase_runTransaction k updateFunction =
     try_catch
       (andThen require_initialized (\<lambda>_.
        let c = FirestoreRunTransaction updateFunction in
        andThen (firestore_call k c (transaction_result k c)) (\<lambda>result.
        andThen (fb_log L_debug ''Transaction completed successfully'') (\<lambda>_.
        ret (ok_data result)))))
       (\<lambda>err. fb_report ''Error running transaction'' err)"

section \<open>class DB (index.ts)\<close>

record DBOptions =
  opt_mongodb :: "MongoDBOptions option"
  opt_firebase :: "FirebaseOptions option"
  opt_logger :: "Logger option"

record DB =
  mongo :: "MongoDB option"
  firebase :: "Firebase option"
  db_logger :: Logger

definition DB_fields :: DB where
  "DB_fields = \<lparr>mongo = None, firebase = None, db_logger = createDefaultLogger\<rparr>"

definition db_log :: "log_level \<Rightarrow> string \<Rightarrow> (DB, unit) prog" where
  "db_log level msg = (\<lambda>d.
     ((case db_logger d level msg of Some e \<Rightarrow> Inl e | None \<Rightarrow> Inr ()), d))"

text \<open>\<open>new C(...)\<close> inside a method of another object: the outcome of the constructor.\<close>

definition construct :: "thrown + 'a \<Rightarrow> ('s, 'a) prog" where
  "construct r = (\<lambda>s. (r, s))"

definition DB_constructor :: "driver \<Rightarrow> sdk \<Rightarrow> DBOptions \<Rightarrow> (DB, unit) prog" where
  "DB_constructor drv k opts =
     andThen (if opt_mongodb opts = None \<and> opt_firebase opts = None
              then throw (ThrownError (Error
                ''At least one database configuration (mongodb or firebase) must be provided''))
              else ret ()) (\<lambda>_.
     andThen (assign (\<lambda>d. d\<lparr>db_logger := logger_or_default (opt_logger opts)\<rparr>)) (\<lambda>_.
     andThen (case opt_mongodb opts of
                Some mo \<Rightarrow>
                  try_catch
                    (andThen (reads db_logger) (\<lambda>lg.
                     andThen (construct (new_MongoDB drv mo (Some lg))) (\<lambda>m.
                     andThen (assign (\<lambda>d. d\<lparr>mongo := Some m\<rparr>)) (\<lambda>_.
                     db_log L_info ''MongoDB instance created successfully''))))
                    (\<lambda>err.
                     andThen (db_log L_error ''Failed to create MongoDB instance:'') (\<lambda>_.
                     throw err))
              | None \<Rightarrow> ret ()) (\<lambda>_.
     case opt_firebase opts of
       Some fo \<Rightarrow>
         try_catch
           (andThen (reads db_logger) (\<lambda>lg.
            andThen (construct (new_Firebase k fo (Some lg))) (\<lambda>f.
            andThen (assign (\<lambda>d. d\<lparr>firebase := Some f\<rparr>)) (\<lambda>_.
            db_log L_info ''Firebase instance created successfully''))))
           (\<lambda>err.
            andThen (db_log L_error ''Failed to create Firebase instance:'') (\<lambda>_.
            throw err))
     | None \<Rightarrow> ret ())))"

definition new_DB :: "driver \<Rightarrow> sdk \<Rightarrow> DBOptions \<Rightarrow> thrown + DB" where
  "new_DB drv k opts =
     (case DB_constructor drv k opts DB_fields of
        (Inl e, d) \<Rightarrow> Inl e
      | (Inr u, d) \<Rightarrow> Inr d)"

text \<open>A method call on the adapter held in \<open>this.mongo\<close>.\<close>

definition on_mongo :: "(MongoDB, 'a) prog \<Rightarrow> MongoDB \<Rightarrow> (DB, 'a) prog" where
  "on_mongo p m = (\<lambda>d. case p m of (r, m') \<Rightarrow> (r, d\<lparr>mongo := Some m'\<rparr>))"

record Results =
  r_mongodb :: "bool option"
  r_firebase :: "bool option"

definition Object_values :: "Results \<Rightarrow> bool list" where
  "Object_values results =
     (case r_mongodb results of Some b \<Rightarrow> [b] | None \<Rightarrow> []) @
     (case r_firebase results of Some b \<Rightarrow> [b] | None \<Rightarrow> [])"

text \<open>\<open>result.error?.message || fallback\<close>: a missing error and an empty message are falsy.\<close>

fun message_or :: "js_error option \<Rightarrow> string \<Rightarrow> string" where
  "message_or None fallback = fallback"
| "message_or (Some e) fallback = (if error_message e = [] then fallback else error_message e)"

fun join :: "string \<Rightarrow> string list \<Rightarrow> string" where
  "join sep [] = []"
| "join sep [x] = x"
| "join sep (x # y # rest) = x @ sep @ join sep (y # rest)"

text \<open>
  The two local variables \<open>results\<close> and \<open>errors\<close> of connect and disconnect are
  passed along as a pair.
\<close>

definition connect_mongo :: "driver \<Rightarrow> (DB, Results \<times> string list) prog" where
  "connect_mongo drv =
     andThen (reads mongo) (\<lambda>mg.
       case mg of
         Some m \<Rightarrow>
           on_mongo
             (try_catch
                (andThen (connect drv) (\<lambda>mongoResult.
                 ret (\<lparr>r_mongodb = Some (success mongoResult), r_firebase = None\<rparr>,
                      if \<not> success mongoResult
                      then [''MongoDB: '' @ message_or (error mongoResult) ''Connection failed'']
                      else [])))
                (\<lambda>err.
                 ret (\<lparr>r_mongodb = Some False, r_firebase = None\<rparr>,
                      [''MongoDB: '' @ message_or_unknown err])))
             m
       | None \<Rightarrow> ret (\<lparr>r_mongodb = None, r_firebase = None\<rparr>, []))"

definition connect_firebase :: "Results \<times> string list \<Rightarrow> (DB, Results \<times> string list) prog" where
  "connect_firebase re =
     andThen (reads firebase) (\<lambda>fb.
       case fb of
         Some f \<Rightarrow>
           (let c = Firebase_isConnected f in
            ret ((fst re)\<lparr>r_firebase := Some c\<rparr>,
                 snd re @ (if \<not> c then [''Firebase: Connection failed during initialization'']
                           else [])))
       | None \<Rightarrow> ret re)"

definition DB_connect :: "driver \<Rightarrow> (DB, Results OperationResult) prog" where
  "DB_connect drv =
     andThen (connect_mongo drv) (\<lambda>re1.
     andThen (connect_firebase re1) (\<lambda>re.
       let results = fst re; errors = snd re;
           allConnected = list_all (\<lambda>status. status = True) (Object_values results)
       in if allConnected
          then andThen (db_log L_info ''All databases connected successfully'') (\<lambda>_.
               ret (ok_data results))
          else (let errorMessage = ''Some databases failed to connect: '' @ join '', '' errors
                in andThen (db_log L_error errorMessage) (\<lambda>_.
                   ret \<lparr>success = False, data = Some results,
                        error = Some (Error errorMessage), message = None\<rparr>))))"

definition disconnect_mongo :: "driver \<Rightarrow> (DB, Results \<times> string list) prog" where
  "disconnect_mongo drv =
     andThen (reads mongo) (\<lambda>mg.
       case mg of
         Some m \<Rightarrow>
           on_mongo
             (try_catch
                (andThen (disconnect drv) (\<lambda>mongoResult.
                 ret (\<lparr>r_mongodb = Some (success mongoResult), r_firebase = None\<rparr>,
                      if \<not> success mongoResult
                      then [''MongoDB: '' @ message_or (error mongoResult) ''Disconnection failed'']
                      else [])))
                (\<lambda>err.
                 ret (\<lparr>r_mongodb = Some False, r_firebase = None\<rparr>,
                      [''MongoDB: '' @ message_or_unknown err])))
             m
       | None \<Rightarrow> ret (\<lparr>r_mongodb = None, r_firebase = None\<rparr>, []))"

definition disconnect_firebase :: "Results \<times> string list \<Rightarrow> (DB, Results \<times> string list) prog" where
  "disconnect_firebase re =
     andThen (reads firebase) (\<lambda>fb.
       case fb of
         Some f \<Rightarrow> ret ((fst re)\<lparr>r_firebase := Some True\<rparr>, snd re)
       | None \<Rightarrow> ret re)"

definition DB_disconnect :: "driver \<Rightarrow> (DB, Results OperationResult) prog" where
  "DB_disconnect drv =
     andThen (disconnect_mongo drv) (\<lambda>re1.
     andThen (disconnect_firebase re1) (\<lambda>re.
       let results = fst re; errors = snd re;
           allDisconnected = list_all (\<lambda>status. status = True) (Object_values results)
       in if allDisconnected
          then andThen (db_log L_info ''All databases disconnected successfully'') (\<lambda>_.
               ret (ok_data results))
          else (let errorMessage = ''Some databases failed to disconnect: '' @ join '', '' errors
                in andThen (db_log L_error errorMessage) (\<lambda>_.
                   ret \<lparr>success = False, data = Some results,
                        error = Some (Error errorMessage), message = None\<rparr>))))"

record StatusReport =
  s_mongodb :: "ConnectionStatus option"
  s_firebase :: "ConnectionStatus option"

definition DB_getConnectionStatus :: "DB \<Rightarrow> StatusReport" where
  "DB_getConnectionStatus d =
     \<lparr>s_mongodb = map_option getConnectionStatus (mongo d),
      s_firebase = map_option Firebase_getConnectionStatus (firebase d)\<rparr>"

definition DB_isConnected :: "DB \<Rightarrow> bool" where
  "DB_isConnected d =
     (let mongoConnected = (case mongo d of Some m \<Rightarrow> isConnected m | None \<Rightarrow> True);
          firebaseConnected =
            (case firebase d of Some f \<Rightarrow> Firebase_isConnected f | None \<Rightarrow> True)
      in mongoConnected \<and> firebaseConnected)"

record Health =
  h_mongodb :: "(bool \<times> ConnectionStatus) option"
  h_firebase :: "(bool \<times> ConnectionStatus) option"
  overall :: bool

definition DB_getHealthStatus :: "(DB, Health OperationResult) prog" where
  "DB_getHealthStatus =
     try_catch
       (andThen (reads (\<lambda>d.
          \<lparr>h_mongodb = map_option (\<lambda>m. (isConnected m, getConnectionStatus m)) (mongo d),
           h_firebase = map_option
             (\<lambda>f. (Firebase_isConnected f, Firebase_getConnectionStatus f)) (firebase d),
           overall = DB_isConnected d\<rparr>)) (\<lambda>health.
        andThen (db_log L_debug ''Health status checked'') (\<lambda>_.
        ret (ok_data health))))
       (\<lambda>err.
        andThen (db_log L_error ''Error checking health status'') (\<lambda>_.
        ret (failure (as_Error ''Error checking health status'' err))))"

text \<open>Drivers and SDKs for the examples: one on which every call succeeds.\<close>

definition quiet_driver :: driver where
  "quiet_driver =
     \<lparr>fails = (\<lambda>c. None), emits = (\<lambda>c. []),
      insertOne_result = (\<lambda>c. \<lparr>d_insertedId = ObjectId ''65a1'', d_acknowledged = True\<rparr>),
      insertMany_result = (\<lambda>c. \<lparr>d_insertedIds = [], d_insertedCount = 0\<rparr>),
      toArray_result = (\<lambda>c. []),
      findOne_result = (\<lambda>c. None),
      update_result = (\<lambda>c. \<lparr>d_u_acknowledged = True, d_modifiedCount = 0, d_matchedCount = 0,
                             d_upsertedCount = None, d_upsertedId = None\<rparr>),
      delete_result = (\<lambda>c. \<lparr>d_d_acknowledged = True, d_deletedCount = 0\<rparr>),
      countDocuments_result = (\<lambda>c. 0),
      createIndex_result = (\<lambda>c. ''ix'')\<rparr>"

definition refusing_driver :: driver where
  "refusing_driver =
     quiet_driver\<lparr>fails := (\<lambda>c. if c = ClientConnect
                                 then Some (ThrownError (Error ''ECONNREFUSED'')) else None)\<rparr>"

definition quiet_sdk :: sdk where
  "quiet_sdk =
     \<lparr>apps_length = 0, sdk_fails = (\<lambda>c. None),
      get_result = (\<lambda>c. \<lparr>snap_exists = False, snap_id = ''u1'', snap_data = None\<rparr>),
      add_result = (\<lambda>c. ''new1''),
      query_result = (\<lambda>c. []),
      transaction_result = (\<lambda>c. ''null'')\<rparr>"

text \<open>Loggers that throw: always, on every debug call, and on one info message.\<close>

definition failing_logger :: Logger where
  "failing_logger = (\<lambda>level msg. Some (ThrownError (Error ''logger down'')))"

definition debug_failing_logger :: Logger where
  "debug_failing_logger =
     (\<lambda>level msg. if level = L_debug then Some (ThrownError (Error ''logger down'')) else None)"

definition picky_logger :: Logger where
  "picky_logger =
     (\<lambda>level msg. if level = L_info \<and> msg = ''Successfully connected to MongoDB database: test''
                   then Some (ThrownError (Error ''logger down'')) else None)"

definition mongo_options :: MongoDBOptions where
  "mongo_options = \<lparr>uri = ''mongodb://localhost:27017'', dbName_opt = ''test'', options = None\<rparr>"

definition firebase_options :: FirebaseOptions where
  "firebase_options =
     \<lparr>serviceAccount = ''test-project'', databaseURL = None, storageBucket = None\<rparr>"

section \<open>Predicates used by the properties\<close>

text \<open>
  A guarded operation made no call on the driver and left the status and the database
  handle alone.
\<close>

definition untouched :: "(thrown + 'a) \<times> MongoDB \<Rightarrow> MongoDB \<Rightarrow> bool" where
  "untouched r s =
     (client_calls (snd r) = client_calls s \<and> connectionStatus (snd r) = connectionStatus s \<and>
      db (snd r) = db s)"

text \<open>
  A guarded operation was refused: it returned a failed envelope carrying an error,
  made no call on the driver, and left the status and the database handle alone.
\<close>

definition refused :: "(thrown + 'a OperationResult) \<times> MongoDB \<Rightarrow> MongoDB \<Rightarrow> bool" where
  "refused r s =
     (case r of
        (Inl e, s') \<Rightarrow> False
      | (Inr res, s') \<Rightarrow>
          \<not> success res \<and> error res \<noteq> None \<and> client_calls s' = client_calls s \<and>
          connectionStatus s' = connectionStatus s \<and> db s' = db s)"

text \<open>
  The first driver call an operation made, with the adapter status at that moment:
  the entry of the record of calls that follows those made before the operation.
  Likewise the status at the first moment at which control left the adapter.
\<close>

definition entered_at :: "MongoDB \<Rightarrow> MongoDB \<Rightarrow> client_call \<times> ConnectionStatus" where
  "entered_at s s' = client_calls s' ! length (client_calls s)"

definition first_seen :: "MongoDB \<Rightarrow> MongoDB \<Rightarrow> ConnectionStatus" where
  "first_seen s s' = seen s' ! length (seen s)"

section \<open>The adapters as state machines\<close>

text \<open>
  Everything that can happen to a MongoDB adapter once it is constructed: the driver
  emits a lifecycle event, or one of the public methods is called. \<open>MongoDB_do\<close>
  gives what the caller gets back (a returned value or a thrown one) and the adapter
  state afterwards.
\<close>

datatype MongoDB_action =
    Emit client_event
  | Connect
  | Disconnect
  | GetConnectionStatus
  | IsConnected
  | GetCollection string
  | InsertOne string Document
  | InsertMany string "Document list"
  | Find string MongoQuery FindOptions
  | FindOne string MongoQuery
  | UpdateOne string MongoQuery MongoUpdate
  | UpdateMany string MongoQuery MongoUpdate
  | DeleteOne string MongoQuery
  | DeleteMany string MongoQuery
  | CountDocuments string MongoQuery
  | CreateIndex string "(string \<times> int) list" IndexOptions
  | AddDocument string Document
  | GetDocuments string MongoQuery
  | DeleteDocument string MongoQuery
  | UpdateDocument string MongoQuery Document

datatype MongoDB_result =
    Threw thrown
  | Returned_void
  | Returned_status ConnectionStatus
  | Returned_bool bool
  | Returned_collection Collection
  | Returned_documents "Document list"
  | Envelope_void "unit OperationResult"
  | Envelope_insert "InsertResult OperationResult"
  | Envelope_insertMany "InsertManyResult OperationResult"
  | Envelope_documents "Document list OperationResult"
  | Envelope_document "Document option OperationResult"
  | Envelope_update "UpdateResult OperationResult"
  | Envelope_delete "DeleteResult OperationResult"
  | Envelope_number "int OperationResult"
  | Envelope_string "string OperationResult"

definition outcome :: "('a \<Rightarrow> 'r) \<Rightarrow> (thrown \<Rightarrow> 'r) \<Rightarrow> (thrown + 'a) \<times> 's \<Rightarrow> 'r \<times> 's" where
  "outcome ret_as thr_as r =
     (case r of (Inl e, s) \<Rightarrow> (thr_as e, s) | (Inr x, s) \<Rightarrow> (ret_as x, s))"

fun MongoDB_do :: "driver \<Rightarrow> MongoDB_action \<Rightarrow> MongoDB \<Rightarrow> MongoDB_result \<times> MongoDB" where
  "MongoDB_do drv (Emit e) s = (Returned_void, on_event e s)"
| "MongoDB_do drv Connect s = outcome Envelope_void Threw (connect drv s)"
| "MongoDB_do drv Disconnect s = outcome Envelope_void Threw (disconnect drv s)"
| "MongoDB_do drv GetConnectionStatus s = (Returned_status (getConnectionStatus s), s)"
| "MongoDB_do drv IsConnected s = (Returned_bool (isConnected s), s)"
| "MongoDB_do drv (GetCollection c) s = outcome Returned_collection Threw (getCollection drv c s)"
| "MongoDB_do drv (InsertOne c d) s = outcome Envelope_insert Threw (insertOne drv c d s)"
| "MongoDB_do drv (InsertMany c ds) s = outcome Envelope_insertMany Threw (insertMany drv c ds s)"
| "MongoDB_do drv (Find c q fo) s = outcome Envelope_documents Threw (find drv c q fo s)"
| "MongoDB_do drv (FindOne c q) s = outcome Envelope_document Threw (findOne drv c q s)"
| "MongoDB_do drv (UpdateOne c q u) s = outcome Envelope_update Threw (updateOne drv c q u s)"
| "MongoDB_do drv (UpdateMany c q u) s = outcome Envelope_update Threw (updateMany drv c q u s)"
| "MongoDB_do drv (DeleteOne c q) s = outcome Envelope_delete Threw (deleteOne drv c q s)"
| "MongoDB_do drv (DeleteMany c q) s = outcome Envelope_delete Threw (deleteMany drv c q s)"
| "MongoDB_do drv (CountDocuments c q) s = outcome Envelope_number Threw (countDocuments drv c q s)"
| "MongoDB_do drv (CreateIndex c sp io) s =
     outcome Envelope_string Threw (createIndex drv c sp io s)"
| "MongoDB_do drv (AddDocument c d) s = outcome (\<lambda>u. Returned_void) Threw (addDocument drv c d s)"
| "MongoDB_do drv (GetDocuments c q) s = outcome Returned_documents Threw (getDocuments drv c q s)"
| "MongoDB_do drv (DeleteDocument c q) s =
     outcome (\<lambda>u. Returned_void) Threw (deleteDocument drv c q s)"
| "MongoDB_do drv (UpdateDocument c q u) s =
     outcome (\<lambda>u. Returned_void) Threw (updateDocument drv c q u s)"

text \<open>
  A history is a list of such happenings, each with the driver behaviour of its moment.
\<close>

definition MongoDB_after :: "(driver \<times> MongoDB_action) list \<Rightarrow> MongoDB \<Rightarrow> MongoDB" where
  "MongoDB_after history s = fold (\<lambda>da s. snd (MongoDB_do (fst da) (snd da) s)) history s"



datatype Firebase_action =
    F_getConnectionStatus
  | F_isConnected
  | F_getDocument string
  | F_setDocument string Document SetOptions
  | F_updateDocument string Document
  | F_deleteDocument string
  | F_addDocument string Document
  | F_getCollection string QueryOptions
  | F_listenCollection string QueryOptions
  | F_listenDocument string
  | F_batchWrite "Operation list"
  | F_runTransaction string

datatype Firebase_result =
    F_threw thrown
  | F_returned_status ConnectionStatus
  | F_returned_bool bool
  | F_returned_unsubscribe UnsubscribeFunction
  | F_envelope_document "Document option OperationResult"
  | F_envelope_void "unit OperationResult"
  | F_envelope_add "AddResult OperationResult"
  | F_envelope_documents "Document list OperationResult"
  | F_envelope_json "json OperationResult"

fun Firebase_do :: "sdk \<Rightarrow> Firebase_action \<Rightarrow> Firebase \<Rightarrow> Firebase_result \<times> Firebase" where
  "Firebase_do k F_getConnectionStatus s = (F_returned_status (Firebase_getConnectionStatus s), s)"
| "Firebase_do k F_isConnected s = (F_returned_bool (Firebase_isConnected s), s)"
| "Firebase_do k (F_getDocument p) s =
     outcome F_envelope_document F_threw (Firebase_getDocument k p s)"
| "Firebase_do k (F_setDocument p d so) s =
     outcome F_envelope_void F_threw (Firebase_setDocument k p d so s)"
| "Firebase_do k (F_updateDocument p d) s =
     outcome F_envelope_void F_threw (Firebase_updateDocument k p d s)"
| "Firebase_do k (F_deleteDocument p) s =
     outcome F_envelope_void F_threw (Firebase_deleteDocument k p s)"
| "Firebase_do k (F_addDocument p d) s =
     outcome F_envelope_add F_threw (Firebase_addDocument k p d s)"
| "Firebase_do k (F_getCollection p qo) s =
     outcome F_envelope_documents F_threw (Firebase_getCollection k p qo s)"
| "Firebase_do k (F_listenCollection p qo) s =
     outcome F_returned_unsubscribe F_threw (Firebase_listenCollection k p qo s)"
| "Firebase_do k (F_listenDocument p) s =
     outcome F_returned_unsubscribe F_threw (Firebase_listenDocument k p s)"
| "Firebase_do k (F_batchWrite ops) s =
     outcome F_envelope_void F_threw (Firebase_batchWrite k ops s)"
| "Firebase_do k (F_runTransaction f) s =
     outcome F_envelope_json F_threw (Firebase_runTransaction k f s)"

definition Firebase_after :: "(sdk \<times> Firebase_action) list \<Rightarrow> Firebase \<Rightarrow> Firebase" where
  "Firebase_after history s = fold (\<lambda>ka s. snd (Firebase_do (fst ka) (snd ka) s)) history s"



text \<open>
  Relations between the state before and after a piece of a method, used to carry a
  fact through the sequencing, the guards and the handlers of every method at once.
  For the MongoDB adapter: if the status was never \<open>reconnecting\<close> (not now, and at
  none of the recorded calls of the driver and of the logger) then this is still so,
  the attempts counter keeps its value or becomes 0, and the maximum and the logger
  keep their values. For the Firebase adapter: the handle, the status, the logger and
  \<open>isInitialized\<close> keep their values, no initialising call is added to the record of
  SDK calls, and the status was never \<open>reconnecting\<close> if it was not before.
\<close>

definition never_reconnecting :: "MongoDB \<Rightarrow> bool" where
  "never_reconnecting s =
     (connectionStatus s \<noteq> RECONNECTING \<and> RECONNECTING \<notin> set (seen s) \<and>
      RECONNECTING \<notin> snd ` set (client_calls s))"

definition Firebase_never_reconnecting :: "Firebase \<Rightarrow> bool" where
  "Firebase_never_reconnecting s =
     (fb_connectionStatus s \<noteq> RECONNECTING \<and> RECONNECTING \<notin> set (fb_seen s))"

definition MongoDB_moves :: "MongoDB \<Rightarrow> MongoDB \<Rightarrow> bool" where
  "MongoDB_moves s s' =
     ((never_reconnecting s \<longrightarrow> never_reconnecting s') \<and>
      (reconnectAttempts s' = reconnectAttempts s \<or> reconnectAttempts s' = 0) \<and>
      maxReconnectAttempts s' = maxReconnectAttempts s \<and> logger s' = logger s)"

text \<open>The SDK calls that initialise: those the constructor makes.\<close>

fun initialising :: "sdk_call \<Rightarrow> bool" where
  "initialising (CredentialCert a) = True"
| "initialising (InitializeApp opts) = True"
| "initialising AdminFirestore = True"
| "initialising other = False"

definition Firebase_moves :: "Firebase \<Rightarrow> Firebase \<Rightarrow> bool" where
  "Firebase_moves s s' =
     (firestore s' = firestore s \<and> fb_connectionStatus s' = fb_connectionStatus s \<and>
      isInitialized s' = isInitialized s \<and>
      filter initialising (sdk_calls s') = filter initialising (sdk_calls s) \<and>
      (Firebase_never_reconnecting s \<longrightarrow> Firebase_never_reconnecting s') \<and>
      fb_logger s' = fb_logger s)"

definition within :: "('s \<Rightarrow> 's \<Rightarrow> bool) \<Rightarrow> ('s, 'a) prog \<Rightarrow> bool" where
  "within R p = (\<forall>s. R s (snd (p s)))"

text \<open>
  A piece of a method does not look at \<open>maxReconnectAttempts\<close>: run with another
  value in that field, it yields the same result and the same state but for that field.
\<close>

definition ignores_max :: "(MongoDB, 'a) prog \<Rightarrow> bool" where
  "ignores_max p =
     (\<forall>s n. p (s\<lparr>maxReconnectAttempts := n\<rparr>) =
            (fst (p s), (snd (p s))\<lparr>maxReconnectAttempts := n\<rparr>))"


text \<open>
  A DB object with its adapters: a caller reaches an adapter through the public fields
  \<open>db.mongo\<close> and \<open>db.firebase\<close>, or calls the facade's own methods.
\<close>

datatype DB_action =
    On_mongo driver MongoDB_action
  | On_firebase sdk Firebase_action
  | DB_Connect driver
  | DB_Disconnect driver
  | DB_GetHealthStatus

fun DB_after_action :: "DB_action \<Rightarrow> DB \<Rightarrow> DB" where
  "DB_after_action (On_mongo drv a) d =
     (case mongo d of None \<Rightarrow> d | Some m \<Rightarrow> d\<lparr>mongo := Some (snd (MongoDB_do drv a m))\<rparr>)"
| "DB_after_action (On_firebase k a) d =
     (case firebase d of None \<Rightarrow> d | Some f \<Rightarrow> d\<lparr>firebase := Some (snd (Firebase_do k a f))\<rparr>)"
| "DB_after_action (DB_Connect drv) d = snd (DB_connect drv d)"
| "DB_after_action (DB_Disconnect drv) d = snd (DB_disconnect drv d)"
| "DB_after_action DB_GetHealthStatus d = snd (DB_getHealthStatus d)"

text \<open>
  The adapters that \<open>new MongoDB(mongo_options)\<close> and \<open>new Firebase(firebase_options)\<close>
  yield on the quiet driver and SDK.
\<close>

definition example_mongo :: MongoDB where
  "example_mongo =
     \<lparr>db = None, dbName = ''test'', connectionStatus = DISCONNECTED, reconnectAttempts = 0,
      maxReconnectAttempts = 5, logger = createDefaultLogger,
      client_calls =
        [(NewMongoClient ''mongodb://localhost:27017''
            \<lparr>maxPoolSize = 10, minPoolSize = 2, maxIdleTimeMS = 30000,
             serverSelectionTimeoutMS = 5000, socketTimeoutMS = 45000,
             retryWrites = True, retryReads = True\<rparr>, DISCONNECTED),
         (ClientOn ''connectionPoolCreated'', DISCONNECTED),
         (ClientOn ''connectionPoolClosed'', DISCONNECTED),
         (ClientOn ''serverOpening'', DISCONNECTED),
         (ClientOn ''serverClosed'', DISCONNECTED),
         (ClientOn ''error'', DISCONNECTED)],
      seen = []\<rparr>"

definition example_firebase :: Firebase where
  "example_firebase =
     \<lparr>firestore = Some Firestore, fb_connectionStatus = CONNECTED, isInitialized = True,
      fb_logger = createDefaultLogger,
      sdk_calls = [CredentialCert ''test-project'', InitializeApp firebase_options,
                   AdminFirestore],
      fb_seen = [DISCONNECTED, DISCONNECTED, DISCONNECTED, CONNECTED]\<rparr>"

definition example_db :: DB where
  "example_db =
     \<lparr>mongo = Some example_mongo, firebase = Some example_firebase,
      db_logger = createDefaultLogger\<rparr>"

text \<open>An SDK on which reading a document fails, and one that cannot hand out Firestore.\<close>

definition unavailable_sdk :: sdk where
  "unavailable_sdk =
     quiet_sdk\<lparr>sdk_fails := (\<lambda>c. case c of
                                     RefGet p \<Rightarrow> Some (ThrownError (Error ''UNAVAILABLE''))
                                   | _ \<Rightarrow> None)\<rparr>"

definition uninitialisable_sdk :: sdk where
  "uninitialisable_sdk =
     quiet_sdk\<lparr>sdk_fails := (\<lambda>c. case c of
                                     AdminFirestore \<Rightarrow> Some (ThrownError (Error ''app/no-app''))
                                   | _ \<Rightarrow> None)\<rparr>"

text \<open>A driver whose client constructor rejects the connection string.\<close>

definition rejecting_driver :: driver where
  "rejecting_driver =
     quiet_driver\<lparr>fails := (\<lambda>c. case c of
                                    NewMongoClient u co \<Rightarrow> Some (ThrownError (Error ''Invalid scheme''))
                                  | _ \<Rightarrow> None)\<rparr>"

section \<open>Properties\<close>

lemma ret_app: "ret x s = (Inr x, s)" by (simp add: ret_def)
lemma throw_app: "throw e s = (Inl e, s)" by (simp add: throw_def)
lemma assign_app: "assign f s = (Inr (), f s)" by (simp add: assign_def)
lemma reads_app: "reads f s = (Inr (f s), s)" by (simp add: reads_def)
lemma andThen_app:
  "andThen m f s = (case m s of (Inl e, s') \<Rightarrow> (Inl e, s') | (Inr x, s') \<Rightarrow> f x s')"
  by (simp add: andThen_def)
lemma try_catch_app:
  "try_catch m h s = (case m s of (Inl e, s') \<Rightarrow> h e s' | (Inr x, s') \<Rightarrow> (Inr x, s'))"
  by (simp add: try_catch_def)

lemma log_app:
  "log level msg s =
     ((case logger s level msg of Some e \<Rightarrow> Inl e | None \<Rightarrow> Inr ()),
      s\<lparr>seen := seen s @ [connectionStatus s]\<rparr>)"
  by (simp add: log_def)

lemma fb_log_app:
  "fb_log level msg s =
     ((case fb_logger s level msg of Some e \<Rightarrow> Inl e | None \<Rightarrow> Inr ()),
      s\<lparr>fb_seen := fb_seen s @ [fb_connectionStatus s]\<rparr>)"
  by (simp add: fb_log_def)

lemma db_log_app:
  "db_log level msg d = ((case db_logger d level msg of Some e \<Rightarrow> Inl e | None \<Rightarrow> Inr ()), d)"
  by (simp add: db_log_def)

lemma if_app: "(if b then p else q) s = (if b then p s else q s)"
  by simp

lemma construct_app: "construct r s = (r, s)"
  by (simp add: construct_def)

lemmas prog_app =
  ret_app throw_app assign_app reads_app andThen_app try_catch_app log_app fb_log_app db_log_app



lemma client_call_app:
  "client_call drv c v s =
     ((case fails drv c of Some e \<Rightarrow> Inl e | None \<Rightarrow> Inr v),
      fold on_event (emits drv c) (s\<lparr>client_calls := client_calls s @ [(c, connectionStatus s)]\<rparr>))"
  by (simp add: client_call_def)

lemma sdk_call_app:
  "sdk_call k c v s =
     ((case sdk_fails k c of Some e \<Rightarrow> Inl e | None \<Rightarrow> Inr v),
      s\<lparr>sdk_calls := sdk_calls s @ [c], fb_seen := fb_seen s @ [fb_connectionStatus s]\<rparr>)"
  by (simp add: sdk_call_def)

lemma on_event_app:
  "on_event connectionPoolCreated s = s\<lparr>seen := seen s @ [connectionStatus s]\<rparr>"
  "on_event connectionPoolClosed s = s\<lparr>seen := seen s @ [connectionStatus s]\<rparr>"
  "on_event serverOpening s = s\<lparr>connectionStatus := CONNECTING, seen := seen s @ [CONNECTING]\<rparr>"
  "on_event serverClosed s =
     s\<lparr>connectionStatus := DISCONNECTED, seen := seen s @ [DISCONNECTED]\<rparr>"
  "on_event (error_event e) s = s\<lparr>connectionStatus := ERROR, seen := seen s @ [ERROR]\<rparr>"
  by (simp_all add: on_event_def prog_app)

lemma fold_on_event_db [simp]: "db (fold on_event evs s) = db s"
proof (induction evs arbitrary: s)
  case Nil
  show ?case by simp
next
  case (Cons e evs)
  show ?case by (cases e) (simp_all add: Cons.IH on_event_app)
qed

lemma fold_on_event_dbName [simp]: "dbName (fold on_event evs s) = dbName s"
proof (induction evs arbitrary: s)
  case Nil
  show ?case by simp
next
  case (Cons e evs)
  show ?case by (cases e) (simp_all add: Cons.IH on_event_app)
qed

lemma fold_on_event_attempts [simp]: "reconnectAttempts (fold on_event evs s) = reconnectAttempts s"
proof (induction evs arbitrary: s)
  case Nil
  show ?case by simp
next
  case (Cons e evs)
  show ?case by (cases e) (simp_all add: Cons.IH on_event_app)
qed

lemma fold_on_event_max [simp]: "maxReconnectAttempts (fold on_event evs s) = maxReconnectAttempts s"
proof (induction evs arbitrary: s)
  case Nil
  show ?case by simp
next
  case (Cons e evs)
  show ?case by (cases e) (simp_all add: Cons.IH on_event_app)
qed

lemma fold_on_event_calls [simp]: "client_calls (fold on_event evs s) = client_calls s"
proof (induction evs arbitrary: s)
  case Nil
  show ?case by simp
next
  case (Cons e evs)
  show ?case by (cases e) (simp_all add: Cons.IH on_event_app)
qed

lemma fold_on_event_logger [simp]: "logger (fold on_event evs s) = logger s"
proof (induction evs arbitrary: s)
  case Nil
  show ?case by simp
next
  case (Cons e evs)
  show ?case by (cases e) (simp_all add: Cons.IH on_event_app)
qed

subsection \<open>Carrying a relation through a method body\<close>

lemma within_ret: "reflp R \<Longrightarrow> within R (ret x)"
  by (simp add: within_def ret_app reflp_def)

lemma within_throw: "reflp R \<Longrightarrow> within R (throw e)"
  by (simp add: within_def throw_app reflp_def)

lemma within_reads: "reflp R \<Longrightarrow> within R (reads f)"
  by (simp add: within_def reads_app reflp_def)

lemma within_construct: "reflp R \<Longrightarrow> within R (construct r)"
  by (simp add: within_def construct_app reflp_def)

lemma within_assign: "(\<And>s. R s (f s)) \<Longrightarrow> within R (assign f)"
  by (simp add: within_def assign_app)

lemma within_andThen:
  assumes "transp R" and "within R m" and "\<And>x. within R (f x)"
  shows "within R (andThen m f)"
proof (unfold within_def, rule allI)
  fix s
  show "R s (snd (andThen m f s))"
  proof (cases "m s")
    case (Pair r s')
    have a: "R s s'" using assms(2) Pair by (auto simp: within_def dest: spec [of _ s])
    show ?thesis
    proof (cases r)
      case (Inl e)
      then show ?thesis using Pair a by (simp add: andThen_app)
    next
      case (Inr x)
      have "R s' (snd (f x s'))" using assms(3) by (simp add: within_def)
      with a have "R s (snd (f x s'))" using assms(1) by (blast dest: transpD)
      then show ?thesis using Pair Inr by (simp add: andThen_app)
    qed
  qed
qed

lemma within_try_catch:
  assumes "transp R" and "within R m" and "\<And>e. within R (h e)"
  shows "within R (try_catch m h)"
proof (unfold within_def, rule allI)
  fix s
  show "R s (snd (try_catch m h s))"
  proof (cases "m s")
    case (Pair r s')
    have a: "R s s'" using assms(2) Pair by (auto simp: within_def dest: spec [of _ s])
    show ?thesis
    proof (cases r)
      case (Inr x)
      then show ?thesis using Pair a by (simp add: try_catch_app)
    next
      case (Inl e)
      have "R s' (snd (h e s'))" using assms(3) by (simp add: within_def)
      with a have "R s (snd (h e s'))" using assms(1) by (blast dest: transpD)
      then show ?thesis using Pair Inl by (simp add: try_catch_app)
    qed
  qed
qed

lemma within_if: "within R p \<Longrightarrow> within R q \<Longrightarrow> within R (if b then p else q)"
  by simp

lemma within_case_option:
  "within R p \<Longrightarrow> (\<And>x. within R (q x)) \<Longrightarrow> within R (case v of None \<Rightarrow> p | Some x \<Rightarrow> q x)"
  by (cases v) simp_all

lemma within_let: "(\<And>x. within R (f x)) \<Longrightarrow> within R (let x = v in f x)"
  by simp

subsection \<open>MongoDB\<close>

lemma MongoDB_moves_refl: "reflp MongoDB_moves"
  by (simp add: reflp_def MongoDB_moves_def)

lemma MongoDB_moves_trans: "transp MongoDB_moves"
  by (auto simp: transp_def MongoDB_moves_def)

lemma on_event_moves: "MongoDB_moves s (on_event e s)"
  by (cases e) (auto simp: MongoDB_moves_def never_reconnecting_def on_event_app)

lemma fold_on_event_moves: "MongoDB_moves s (fold on_event evs s)"
proof (induction evs arbitrary: s)
  case Nil
  show ?case using MongoDB_moves_refl by (simp add: reflp_def)
next
  case (Cons e evs)
  have "MongoDB_moves s (on_event e s)" by (rule on_event_moves)
  moreover have "MongoDB_moves (on_event e s) (fold on_event evs (on_event e s))"
    by (rule Cons.IH)
  ultimately show ?case using MongoDB_moves_trans by (auto dest: transpD)
qed

lemma within_client_call: "within MongoDB_moves (client_call drv c v)"
proof -
  have "MongoDB_moves s (fold on_event (emits drv c)
          (s\<lparr>client_calls := client_calls s @ [(c, connectionStatus s)]\<rparr>))" for s
    using fold_on_event_moves
      [of "s\<lparr>client_calls := client_calls s @ [(c, connectionStatus s)]\<rparr>" "emits drv c"]
    by (auto simp: MongoDB_moves_def never_reconnecting_def)
  then show ?thesis by (simp add: within_def client_call_app)
qed

lemma within_log: "within MongoDB_moves (log level msg)"
  by (auto simp: within_def log_app MongoDB_moves_def never_reconnecting_def)

lemmas MongoDB_within =
  within_ret [OF MongoDB_moves_refl] within_throw [OF MongoDB_moves_refl]
  within_reads [OF MongoDB_moves_refl]
  within_andThen [OF MongoDB_moves_trans] within_try_catch [OF MongoDB_moves_trans]
  within_client_call within_log within_if within_case_option within_let

lemma within_report: "within MongoDB_moves (report msg err)"
  unfolding report_def by (intro MongoDB_within)

lemma within_require_connected: "within MongoDB_moves require_connected"
  unfolding require_connected_def by (intro MongoDB_within)

lemma within_getCollection: "within MongoDB_moves (getCollection drv c)"
  unfolding getCollection_def by (intro MongoDB_within)

lemma within_connect: "within MongoDB_moves (connect drv)"
  unfolding connect_def
  by (intro MongoDB_within within_report within_assign)
     (simp_all add: MongoDB_moves_def never_reconnecting_def)

lemma within_disconnect: "within MongoDB_moves (disconnect drv)"
  unfolding disconnect_def
  by (intro MongoDB_within within_report within_assign)
     (simp_all add: MongoDB_moves_def never_reconnecting_def)

lemmas MongoDB_within2 =
  MongoDB_within within_report within_require_connected within_getCollection

lemma within_insertOne: "within MongoDB_moves (insertOne drv c d)"
  unfolding insertOne_def by (intro MongoDB_within2)

lemma within_insertMany: "within MongoDB_moves (insertMany drv c ds)"
  unfolding insertMany_def by (intro MongoDB_within2)

lemma within_find: "within MongoDB_moves (find drv c q fo)"
  unfolding find_def by (intro MongoDB_within2)

lemma within_findOne: "within MongoDB_moves (findOne drv c q)"
  unfolding findOne_def by (intro MongoDB_within2)

lemma within_updateOne: "within MongoDB_moves (updateOne drv c q u)"
  unfolding updateOne_def by (intro MongoDB_within2)

lemma within_updateMany: "within MongoDB_moves (updateMany drv c q u)"
  unfolding updateMany_def by (intro MongoDB_within2)

lemma within_deleteOne: "within MongoDB_moves (deleteOne drv c q)"
  unfolding deleteOne_def by (intro MongoDB_within2)

lemma within_deleteMany: "within MongoDB_moves (deleteMany drv c q)"
  unfolding deleteMany_def by (intro MongoDB_within2)

lemma within_countDocuments: "within MongoDB_moves (countDocuments drv c q)"
  unfolding countDocuments_def by (intro MongoDB_within2)

lemma within_createIndex: "within MongoDB_moves (createIndex drv c sp io)"
  unfolding createIndex_def by (intro MongoDB_within2)

lemma within_addDocument: "within MongoDB_moves (addDocument drv c d)"
  unfolding addDocument_def by (intro MongoDB_within2 within_insertOne)

lemma within_getDocuments: "within MongoDB_moves (getDocuments drv c q)"
  unfolding getDocuments_def by (intro MongoDB_within2 within_find)

lemma within_deleteDocument: "within MongoDB_moves (deleteDocument drv c q)"
  unfolding deleteDocument_def by (intro MongoDB_within2 within_deleteOne)

lemma within_updateDocument: "within MongoDB_moves (updateDocument drv c q u)"
  unfolding updateDocument_def by (intro MongoDB_within2 within_updateOne)

lemma snd_outcome: "snd (outcome f g r) = snd r"
  by (cases r) (simp add: outcome_def split: sum.splits)

lemma MongoDB_do_moves: "MongoDB_moves s (snd (MongoDB_do drv a s))"
proof (cases a)
  case (Emit e)
  then show ?thesis by (simp add: on_event_moves)
next
  case GetConnectionStatus
  then show ?thesis using MongoDB_moves_refl by (simp add: reflp_def)
next
  case IsConnected
  then show ?thesis using MongoDB_moves_refl by (simp add: reflp_def)
qed (use within_connect within_disconnect within_getCollection within_insertOne within_insertMany
      within_find within_findOne within_updateOne within_updateMany within_deleteOne
      within_deleteMany within_countDocuments within_createIndex within_addDocument
      within_getDocuments within_deleteDocument within_updateDocument
     in \<open>simp_all add: snd_outcome within_def\<close>)

subsection \<open>maxReconnectAttempts is not read\<close>

lemma ignores_ret: "ignores_max (ret x)"
  by (simp add: ignores_max_def ret_app)

lemma ignores_throw: "ignores_max (throw e)"
  by (simp add: ignores_max_def throw_app)

lemma ignores_reads:
  "(\<And>s n. f (s\<lparr>maxReconnectAttempts := n\<rparr>) = f s) \<Longrightarrow> ignores_max (reads f)"
  by (simp add: ignores_max_def reads_app)

lemma ignores_assign:
  "(\<And>s n. f (s\<lparr>maxReconnectAttempts := n\<rparr>) = (f s)\<lparr>maxReconnectAttempts := n\<rparr>) \<Longrightarrow>
   ignores_max (assign f)"
  by (simp add: ignores_max_def assign_app)

lemma ignores_andThen:
  assumes "ignores_max m" and "\<And>x. ignores_max (f x)"
  shows "ignores_max (andThen m f)"
proof (unfold ignores_max_def, intro allI)
  fix s n
  have m: "m (s\<lparr>maxReconnectAttempts := n\<rparr>) = (fst (m s), (snd (m s))\<lparr>maxReconnectAttempts := n\<rparr>)"
    using assms(1) by (simp add: ignores_max_def)
  show "andThen m f (s\<lparr>maxReconnectAttempts := n\<rparr>) =
        (fst (andThen m f s), (snd (andThen m f s))\<lparr>maxReconnectAttempts := n\<rparr>)"
  proof (cases "m s")
    case (Pair r s')
    show ?thesis
    proof (cases r)
      case (Inl e)
      then show ?thesis using Pair m by (simp add: andThen_app)
    next
      case (Inr x)
      have "f x (s'\<lparr>maxReconnectAttempts := n\<rparr>) =
            (fst (f x s'), (snd (f x s'))\<lparr>maxReconnectAttempts := n\<rparr>)"
        using assms(2) [of x] by (simp add: ignores_max_def)
      then show ?thesis using Pair Inr m by (simp add: andThen_app)
    qed
  qed
qed

lemma ignores_try_catch:
  assumes "ignores_max m" and "\<And>e. ignores_max (h e)"
  shows "ignores_max (try_catch m h)"
proof (unfold ignores_max_def, intro allI)
  fix s n
  have m: "m (s\<lparr>maxReconnectAttempts := n\<rparr>) = (fst (m s), (snd (m s))\<lparr>maxReconnectAttempts := n\<rparr>)"
    using assms(1) by (simp add: ignores_max_def)
  show "try_catch m h (s\<lparr>maxReconnectAttempts := n\<rparr>) =
        (fst (try_catch m h s), (snd (try_catch m h s))\<lparr>maxReconnectAttempts := n\<rparr>)"
  proof (cases "m s")
    case (Pair r s')
    show ?thesis
    proof (cases r)
      case (Inr x)
      then show ?thesis using Pair m by (simp add: try_catch_app)
    next
      case (Inl e)
      have "h e (s'\<lparr>maxReconnectAttempts := n\<rparr>) =
            (fst (h e s'), (snd (h e s'))\<lparr>maxReconnectAttempts := n\<rparr>)"
        using assms(2) [of e] by (simp add: ignores_max_def)
      then show ?thesis using Pair Inl m by (simp add: try_catch_app)
    qed
  qed
qed

lemma on_event_max_update:
  "on_event e (s\<lparr>maxReconnectAttempts := n\<rparr>) = (on_event e s)\<lparr>maxReconnectAttempts := n\<rparr>"
  by (cases e) (simp_all add: on_event_app)

lemma fold_on_event_max_update:
  "fold on_event evs (s\<lparr>maxReconnectAttempts := n\<rparr>) =
   (fold on_event evs s)\<lparr>maxReconnectAttempts := n\<rparr>"
  by (induction evs arbitrary: s) (simp_all add: on_event_max_update)

lemma ignores_client_call: "ignores_max (client_call drv c v)"
proof -
  have swap: "s\<lparr>maxReconnectAttempts := n, client_calls := cs\<rparr> =
              (s\<lparr>client_calls := cs\<rparr>)\<lparr>maxReconnectAttempts := n\<rparr>" for s :: MongoDB and n cs
    by simp
  show ?thesis
    unfolding ignores_max_def client_call_app
    by (simp only: swap fold_on_event_max_update) simp
qed

lemma ignores_log: "ignores_max (log level msg)"
  by (simp add: ignores_max_def log_app)

lemma ignores_if: "ignores_max p \<Longrightarrow> ignores_max q \<Longrightarrow> ignores_max (if b then p else q)"
  by simp

lemma ignores_case_option:
  "ignores_max p \<Longrightarrow> (\<And>x. ignores_max (q x)) \<Longrightarrow>
   ignores_max (case v of None \<Rightarrow> p | Some x \<Rightarrow> q x)"
  by (cases v) simp_all

lemma ignores_let: "(\<And>x. ignores_max (f x)) \<Longrightarrow> ignores_max (let x = v in f x)"
  by simp

lemmas MongoDB_ignores =
  ignores_ret ignores_throw ignores_andThen ignores_try_catch ignores_client_call
  ignores_log ignores_if ignores_case_option ignores_let

lemma ignores_report: "ignores_max (report msg err)"
  unfolding report_def by (intro MongoDB_ignores)

lemma ignores_require_connected: "ignores_max require_connected"
  unfolding require_connected_def
  by (intro MongoDB_ignores ignores_reads) (simp add: isConnected_def)

lemma ignores_getCollection: "ignores_max (getCollection drv c)"
  unfolding getCollection_def by (intro MongoDB_ignores ignores_reads) simp

lemma ignores_connect: "ignores_max (connect drv)"
  unfolding connect_def
  by (intro MongoDB_ignores ignores_report ignores_reads ignores_assign) simp_all

lemma ignores_disconnect: "ignores_max (disconnect drv)"
  unfolding disconnect_def
  by (intro MongoDB_ignores ignores_report ignores_reads ignores_assign) simp_all

lemmas MongoDB_ignores2 =
  MongoDB_ignores ignores_report ignores_require_connected ignores_getCollection

lemma ignores_insertOne: "ignores_max (insertOne drv c d)"
  unfolding insertOne_def by (intro MongoDB_ignores2)

lemma ignores_insertMany: "ignores_max (insertMany drv c ds)"
  unfolding insertMany_def by (intro MongoDB_ignores2)

lemma ignores_find: "ignores_max (find drv c q fo)"
  unfolding find_def by (intro MongoDB_ignores2)

lemma ignores_findOne: "ignores_max (findOne drv c q)"
  unfolding findOne_def by (intro MongoDB_ignores2)

lemma ignores_updateOne: "ignores_max (updateOne drv c q u)"
  unfolding updateOne_def by (intro MongoDB_ignores2)

lemma ignores_updateMany: "ignores_max (updateMany drv c q u)"
  unfolding updateMany_def by (intro MongoDB_ignores2)

lemma ignores_deleteOne: "ignores_max (deleteOne drv c q)"
  unfolding deleteOne_def by (intro MongoDB_ignores2)

lemma ignores_deleteMany: "ignores_max (deleteMany drv c q)"
  unfolding deleteMany_def by (intro MongoDB_ignores2)

lemma ignores_countDocuments: "ignores_max (countDocuments drv c q)"
  unfolding countDocuments_def by (intro MongoDB_ignores2)

lemma ignores_createIndex: "ignores_max (createIndex drv c sp io)"
  unfolding createIndex_def by (intro MongoDB_ignores2)

lemma ignores_addDocument: "ignores_max (addDocument drv c d)"
  unfolding addDocument_def by (intro MongoDB_ignores2 ignores_insertOne)

lemma ignores_getDocuments: "ignores_max (getDocuments drv c q)"
  unfolding getDocuments_def by (intro MongoDB_ignores2 ignores_find)

lemma ignores_deleteDocument: "ignores_max (deleteDocument drv c q)"
  unfolding deleteDocument_def by (intro MongoDB_ignores2 ignores_deleteOne)

lemma ignores_updateDocument: "ignores_max (updateDocument drv c q u)"
  unfolding updateDocument_def by (intro MongoDB_ignores2 ignores_updateOne)

lemma outcome_ignores:
  "ignores_max p \<Longrightarrow>
   outcome f g (p (s\<lparr>maxReconnectAttempts := n\<rparr>)) =
   (fst (outcome f g (p s)), (snd (outcome f g (p s)))\<lparr>maxReconnectAttempts := n\<rparr>)"
  by (cases "p s") (auto simp: ignores_max_def outcome_def split: sum.splits)

lemma MongoDB_do_ignores_max:
  "MongoDB_do drv a (s\<lparr>maxReconnectAttempts := n\<rparr>) =
   (fst (MongoDB_do drv a s), (snd (MongoDB_do drv a s))\<lparr>maxReconnectAttempts := n\<rparr>)"
proof (cases a)
  case (Emit e)
  then show ?thesis by (simp add: on_event_max_update)
next
  case GetConnectionStatus
  then show ?thesis by (simp add: getConnectionStatus_def)
next
  case IsConnected
  then show ?thesis by (simp add: isConnected_def)
qed (simp_all add: outcome_ignores ignores_connect ignores_disconnect ignores_getCollection
      ignores_insertOne ignores_insertMany ignores_find ignores_findOne ignores_updateOne
      ignores_updateMany ignores_deleteOne ignores_deleteMany ignores_countDocuments
      ignores_createIndex ignores_addDocument ignores_getDocuments ignores_deleteDocument
      ignores_updateDocument)

subsection \<open>Firebase\<close>

lemma Firebase_moves_refl: "reflp Firebase_moves"
  by (simp add: reflp_def Firebase_moves_def)

lemma Firebase_moves_trans: "transp Firebase_moves"
  by (auto simp: transp_def Firebase_moves_def)

lemma within_sdk_call: "\<not> initialising c \<Longrightarrow> within Firebase_moves (sdk_call k c v)"
  by (auto simp: within_def sdk_call_app Firebase_moves_def Firebase_never_reconnecting_def)

lemma within_fb_log: "within Firebase_moves (fb_log level msg)"
  by (auto simp: within_def fb_log_app Firebase_moves_def Firebase_never_reconnecting_def)

lemmas Firebase_within =
  within_ret [OF Firebase_moves_refl] within_throw [OF Firebase_moves_refl]
  within_reads [OF Firebase_moves_refl]
  within_andThen [OF Firebase_moves_trans] within_try_catch [OF Firebase_moves_trans]
  within_fb_log within_if within_case_option within_let

lemma within_fb_report: "within Firebase_moves (fb_report msg err)"
  unfolding fb_report_def by (intro Firebase_within)

lemma within_require_initialized: "within Firebase_moves require_initialized"
  unfolding require_initialized_def by (intro Firebase_within)

lemma within_firestore_call:
  "\<not> initialising c \<Longrightarrow> within Firebase_moves (firestore_call k c v)"
  unfolding firestore_call_def by (intro Firebase_within within_sdk_call)

lemma within_apply_where: "within Firebase_moves (apply_where k conds q)"
proof (induction conds arbitrary: q)
  case Nil
  show ?case by (simp add: Firebase_within)
next
  case (Cons c conds)
  show ?case by (simp, intro Firebase_within within_sdk_call Cons.IH) simp
qed

lemma within_batch_operation: "within Firebase_moves (batch_operation k operation)"
  unfolding batch_operation_def
  by (cases "op_type operation")
     (simp_all, (intro Firebase_within within_firestore_call within_sdk_call; simp)+)

lemma within_batch_operations: "within Firebase_moves (batch_operations k ops)"
proof (induction ops)
  case Nil
  show ?case by (simp add: Firebase_within)
next
  case (Cons operation ops)
  show ?case by (simp, intro Firebase_within within_batch_operation Cons.IH)
qed

lemma within_build_query: "within Firebase_moves (build_query k p qo)"
  unfolding build_query_def
  by (intro Firebase_within within_firestore_call within_sdk_call within_apply_where) simp_all

lemmas Firebase_within2 =
  Firebase_within within_fb_report within_require_initialized within_firestore_call within_sdk_call
  within_build_query within_batch_operations

lemma within_getDocument: "within Firebase_moves (Firebase_getDocument k p)"
  unfolding Firebase_getDocument_def Let_def by (intro Firebase_within2) simp_all

lemma within_setDocument: "within Firebase_moves (Firebase_setDocument k p d so)"
  unfolding Firebase_setDocument_def Let_def by (intro Firebase_within2) simp_all

lemma within_fb_updateDocument: "within Firebase_moves (Firebase_updateDocument k p d)"
  unfolding Firebase_updateDocument_def Let_def by (intro Firebase_within2) simp_all

lemma within_fb_deleteDocument: "within Firebase_moves (Firebase_deleteDocument k p)"
  unfolding Firebase_deleteDocument_def Let_def by (intro Firebase_within2) simp_all

lemma within_fb_addDocument: "within Firebase_moves (Firebase_addDocument k p d)"
  unfolding Firebase_addDocument_def Let_def by (intro Firebase_within2) simp_all

lemma within_fb_getCollection: "within Firebase_moves (Firebase_getCollection k p qo)"
  unfolding Firebase_getCollection_def Let_def by (intro Firebase_within2) simp_all

lemma within_listenCollection: "within Firebase_moves (Firebase_listenCollection k p qo)"
  unfolding Firebase_listenCollection_def Let_def by (intro Firebase_within2) simp_all

lemma within_listenDocument: "within Firebase_moves (Firebase_listenDocument k p)"
  unfolding Firebase_listenDocument_def Let_def by (intro Firebase_within2) simp_all

lemma within_batchWrite: "within Firebase_moves (Firebase_batchWrite k ops)"
  unfolding Firebase_batchWrite_def Let_def by (intro Firebase_within2) simp_all

lemma within_runTransaction: "within Firebase_moves (Firebase_runTransaction k f)"
  unfolding Firebase_runTransaction_def Let_def by (intro Firebase_within2) simp_all

lemma Firebase_do_moves: "Firebase_moves s (snd (Firebase_do k a s))"
proof (cases a)
  case F_getConnectionStatus
  then show ?thesis using Firebase_moves_refl by (simp add: reflp_def)
next
  case F_isConnected
  then show ?thesis using Firebase_moves_refl by (simp add: reflp_def)
qed (use within_getDocument within_setDocument within_fb_updateDocument
      within_fb_deleteDocument within_fb_addDocument within_fb_getCollection
      within_listenCollection within_listenDocument within_batchWrite within_runTransaction
     in \<open>simp_all add: snd_outcome within_def\<close>)

lemma Firebase_after_moves: "Firebase_moves s (Firebase_after history s)"
proof (induction history arbitrary: s)
  case Nil
  show ?case using Firebase_moves_refl by (simp add: Firebase_after_def reflp_def)
next
  case (Cons ka history)
  have "Firebase_moves s (snd (Firebase_do (fst ka) (snd ka) s))" by (rule Firebase_do_moves)
  moreover have "Firebase_moves (snd (Firebase_do (fst ka) (snd ka) s))
                   (Firebase_after history (snd (Firebase_do (fst ka) (snd ka) s)))"
    by (rule Cons.IH)
  ultimately show ?case using Firebase_moves_trans
    by (auto simp: Firebase_after_def dest: transpD)
qed

lemma MongoDB_after_moves: "MongoDB_moves s (MongoDB_after history s)"
proof (induction history arbitrary: s)
  case Nil
  show ?case using MongoDB_moves_refl by (simp add: MongoDB_after_def reflp_def)
next
  case (Cons da history)
  have "MongoDB_moves s (snd (MongoDB_do (fst da) (snd da) s))" by (rule MongoDB_do_moves)
  moreover have "MongoDB_moves (snd (MongoDB_do (fst da) (snd da) s))
                   (MongoDB_after history (snd (MongoDB_do (fst da) (snd da) s)))"
    by (rule Cons.IH)
  ultimately show ?case using MongoDB_moves_trans
    by (auto simp: MongoDB_after_def dest: transpD)
qed

subsection \<open>The guard of the CRUD methods\<close>

lemma require_connected_no: "\<not> isConnected s \<Longrightarrow>
  require_connected s = (Inl (ThrownError (Error ''Not connected to MongoDB'')), s)"
  by (simp add: require_connected_def prog_app)

lemma guarded_no:
  "\<not> isConnected s \<Longrightarrow>
   try_catch (andThen require_connected f) (\<lambda>err. report msg err) s =
   ((case logger s L_error msg of
       Some e \<Rightarrow> Inl e
     | None \<Rightarrow> Inr (failure (Error ''Not connected to MongoDB''))),
    s\<lparr>seen := seen s @ [connectionStatus s]\<rparr>)"
  by (simp add: prog_app report_def require_connected_no split: option.splits)

lemma untouched_guarded:
  "\<not> isConnected s \<Longrightarrow>
   untouched (try_catch (andThen require_connected f) (\<lambda>err. report msg err) s) s"
  by (subst guarded_no) (simp_all add: untouched_def)

lemma refused_guarded:
  "\<not> isConnected s \<Longrightarrow> returns_normally (logger s) L_error \<Longrightarrow>
   refused (try_catch (andThen require_connected f) (\<lambda>err. report msg err) s) s"
  by (subst guarded_no) (simp_all add: refused_def failure_def returns_normally_def)

lemma example_mongo_constructed:
  "new_MongoDB quiet_driver mongo_options lg = Inr (example_mongo\<lparr>logger := logger_or_default lg\<rparr>)"
  by (simp add: new_MongoDB_def MongoDB_constructor_def setupEventListeners_def prog_app
        client_call_app quiet_driver_def mongo_options_def MongoDB_fields_def example_mongo_def
        clientOptions_def)

text \<open>
  C6, as stated, fails: on an adapter that was constructed with a logger whose methods
  throw and never connected, \<open>insertOne\<close> does not return an envelope; it throws what
  the logger threw from the catch block.
\<close>

theorem C6_counterexample:
  "new_MongoDB quiet_driver mongo_options (Some failing_logger) =
     Inr (example_mongo\<lparr>logger := failing_logger\<rparr>) \<and>
   \<not> isConnected (example_mongo\<lparr>logger := failing_logger\<rparr>) \<and>
   insertOne quiet_driver ''users'' [(''name'', ''Ann'')]
     (example_mongo\<lparr>logger := failing_logger\<rparr>) =
     (Inl (ThrownError (Error ''logger down'')),
      example_mongo\<lparr>logger := failing_logger, seen := [DISCONNECTED]\<rparr>)"
proof -
  have n: "\<not> isConnected (example_mongo\<lparr>logger := failing_logger\<rparr>)"
    by (simp add: isConnected_def example_mongo_def)
  show ?thesis
    using n example_mongo_constructed [of "Some failing_logger"]
    by (simp add: insertOne_def guarded_no) (simp add: failing_logger_def example_mongo_def)
qed

text \<open>
  C6, amended. Each of the ten CRUD, count and index operations of the MongoDB adapter,
  called while \<open>isConnected()\<close> is false, makes no call on the driver and leaves the
  connection status and the database handle unchanged; and when the \<open>error\<close> method of
  the adapter's logger returns normally, it returns an envelope with \<open>success: false\<close>
  and an error.
\<close>

theorem C6_amended:
  assumes "\<not> isConnected s"
  shows "untouched (insertOne drv collectionName document s) s \<and>
         untouched (insertMany drv collectionName documents s) s \<and>
         untouched (find drv collectionName query fopts s) s \<and>
         untouched (findOne drv collectionName query s) s \<and>
         untouched (updateOne drv collectionName query update s) s \<and>
         untouched (updateMany drv collectionName query update s) s \<and>
         untouched (deleteOne drv collectionName query s) s \<and>
         untouched (deleteMany drv collectionName query s) s \<and>
         untouched (countDocuments drv collectionName query s) s \<and>
         untouched (createIndex drv collectionName indexSpec iopts s) s \<and>
         (returns_normally (logger s) L_error \<longrightarrow>
            refused (insertOne drv collectionName document s) s \<and>
            refused (insertMany drv collectionName documents s) s \<and>
            refused (find drv collectionName query fopts s) s \<and>
            refused (findOne drv collectionName query s) s \<and>
            refused (updateOne drv collectionName query update s) s \<and>
            refused (updateMany drv collectionName query update s) s \<and>
            refused (deleteOne drv collectionName query s) s \<and>
            refused (deleteMany drv collectionName query s) s \<and>
            refused (countDocuments drv collectionName query s) s \<and>
            refused (createIndex drv collectionName indexSpec iopts s) s)"
  unfolding insertOne_def insertMany_def find_def findOne_def updateOne_def updateMany_def
    deleteOne_def deleteMany_def countDocuments_def createIndex_def
  by (intro conjI impI untouched_guarded refused_guarded assms)

theorem C6_amended_witness:
  "\<not> isConnected example_mongo \<and> returns_normally (logger example_mongo) L_error \<and>
   refused (insertOne quiet_driver ''users'' [(''name'', ''Ann'')] example_mongo) example_mongo \<and>
   refused (find quiet_driver ''users'' [] \<lparr>limit = None, skip = None, sort = None\<rparr>
              example_mongo) example_mongo \<and>
   refused (countDocuments quiet_driver ''users'' [] example_mongo) example_mongo \<and>
   refused (createIndex quiet_driver ''users'' [(''name'', 1)]
              \<lparr>ix_unique = None, ix_background = None, ix_name = None\<rparr> example_mongo)
     example_mongo \<and>
   untouched (insertOne quiet_driver ''users'' [(''name'', ''Ann'')]
                (example_mongo\<lparr>logger := failing_logger\<rparr>))
     (example_mongo\<lparr>logger := failing_logger\<rparr>)"
proof -
  have h: "\<not> isConnected example_mongo"
    by (simp add: isConnected_def example_mongo_def)
  have q: "returns_normally (logger example_mongo) L_error"
    by (simp add: returns_normally_def example_mongo_def createDefaultLogger_def)
  have f: "\<not> isConnected (example_mongo\<lparr>logger := failing_logger\<rparr>)"
    by (simp add: isConnected_def example_mongo_def)
  show ?thesis using h q C6_amended [OF h] C6_amended [OF f] by blast
qed

subsection \<open>connect and disconnect\<close>

lemma fold_on_event_seen_nth:
  "i < length (seen s) \<Longrightarrow>
   i < length (seen (fold on_event evs s)) \<and> seen (fold on_event evs s) ! i = seen s ! i"
proof (induction evs arbitrary: s)
  case Nil
  then show ?case by simp
next
  case (Cons e evs)
  have "i < length (seen (on_event e s)) \<and> seen (on_event e s) ! i = seen s ! i"
    using Cons.prems by (cases e) (simp_all add: on_event_app nth_append)
  then show ?case using Cons.IH [of "on_event e s"] by simp
qed

lemma fold_on_event_seen_nth' [simp]:
  "i < length (seen s) \<Longrightarrow> seen (fold on_event evs s) ! i = seen s ! i"
  using fold_on_event_seen_nth by blast

lemma fold_on_event_grows: "prefix (seen s) (seen (fold on_event evs s))"
proof (induction evs arbitrary: s)
  case Nil
  show ?case by simp
next
  case (Cons e evs)
  have "prefix (seen s) (seen (on_event e s))"
    by (cases e) (simp_all add: on_event_app)
  then show ?case using Cons.IH [of "on_event e s"] by (auto intro: prefix_order.trans)
qed

lemma grows_refl: "reflp (\<lambda>a b. prefix (seen a) (seen b))"
  by (simp add: reflp_def)

lemma grows_trans: "transp (\<lambda>a b. prefix (seen a) (seen b))"
  by (auto simp: transp_def intro: prefix_order.trans)

lemma within_client_call_grows:
  "within (\<lambda>a b. prefix (seen a) (seen b)) (client_call drv c v)"
  using fold_on_event_grows
    [of "s\<lparr>client_calls := client_calls s @ [(c, connectionStatus s)]\<rparr>" "emits drv c" for s]
  by (simp add: within_def client_call_app)

lemma within_log_grows: "within (\<lambda>a b. prefix (seen a) (seen b)) (log level msg)"
  by (simp add: within_def log_app)

lemmas grows =
  within_ret [OF grows_refl] within_throw [OF grows_refl] within_reads [OF grows_refl]
  within_andThen [OF grows_trans] within_try_catch [OF grows_trans]
  within_client_call_grows within_log_grows within_if within_case_option within_let

lemma within_report_grows: "within (\<lambda>a b. prefix (seen a) (seen b)) (report msg err)"
  unfolding report_def by (intro grows)

lemma first_seen_after_log:
  assumes f: "\<And>x. within (\<lambda>a b. prefix (seen a) (seen b)) (f x)"
    and h: "\<And>e. within (\<lambda>a b. prefix (seen a) (seen b)) (h e)"
  shows "seen (snd (try_catch (andThen (assign g) (\<lambda>_. andThen (log l msg) f)) h s))
           ! length (seen (g s)) = connectionStatus (g s)"
proof -
  define s2 where "s2 = (g s)\<lparr>seen := seen (g s) @ [connectionStatus (g s)]\<rparr>"
  have at: "seen s2 ! length (seen (g s)) = connectionStatus (g s)"
    and len: "length (seen (g s)) < length (seen s2)"
    by (simp_all add: s2_def)
  have keep: "prefix (seen s2) (seen b) \<Longrightarrow>
              seen b ! length (seen (g s)) = connectionStatus (g s)" for b :: MongoDB
    using at len by (auto simp: prefix_def nth_append)
  show ?thesis
  proof (cases "logger (g s) l msg")
    case (Some e)
    have "try_catch (andThen (assign g) (\<lambda>_. andThen (log l msg) f)) h s = h e s2"
      using Some by (simp add: prog_app s2_def)
    moreover have "prefix (seen s2) (seen (snd (h e s2)))"
      using h [of e] by (simp add: within_def)
    ultimately show ?thesis using keep by simp
  next
    case None
    have "try_catch (andThen (assign g) (\<lambda>_. andThen (log l msg) f)) h s =
          try_catch (f ()) h s2"
      using None by (simp add: prog_app s2_def)
    moreover have "prefix (seen s2) (seen (snd (try_catch (f ()) h s2)))"
      using within_try_catch [OF grows_trans f [of "()"] h] by (simp add: within_def)
    ultimately show ?thesis using keep by simp
  qed
qed

lemma first_seen_connect: "first_seen s (snd (connect drv s)) = CONNECTING"
proof -
  have "seen (snd (connect drv s)) ! length (seen (s\<lparr>connectionStatus := CONNECTING\<rparr>)) =
        connectionStatus (s\<lparr>connectionStatus := CONNECTING\<rparr>)"
    unfolding connect_def
    by (rule first_seen_after_log) (intro grows within_report_grows within_assign; simp)+
  then show ?thesis by (simp add: first_seen_def)
qed

lemma connect_quiet:
  assumes "returns_normally (logger s) L_info" and "returns_normally (logger s) L_error"
  shows "entered_at s (snd (connect drv s)) = (ClientConnect, CONNECTING)"
    and "fails drv ClientConnect = None \<Longrightarrow> fails drv (ClientDb (dbName s)) = None \<Longrightarrow>
         fst (connect drv s) = Inr (ok_message ''Connected to MongoDB'') \<and>
         connectionStatus (snd (connect drv s)) = CONNECTED \<and>
         db (snd (connect drv s)) = Some (Db (dbName s)) \<and>
         reconnectAttempts (snd (connect drv s)) = 0"
    and "fails drv ClientConnect = Some e \<or>
         (fails drv ClientConnect = None \<and> fails drv (ClientDb (dbName s)) = Some e) \<Longrightarrow>
         fst (connect drv s) = Inr (failure (as_Error
              (''Failed to connect to MongoDB: '' @ message_or_unknown e) e)) \<and>
         connectionStatus (snd (connect drv s)) = ERROR \<and> db (snd (connect drv s)) = db s"
    and "fails drv ClientClose = None \<Longrightarrow>
         fst (disconnect drv s) = Inr (ok_message ''Disconnected from MongoDB'') \<and>
         connectionStatus (snd (disconnect drv s)) = DISCONNECTED \<and>
         db (snd (disconnect drv s)) = None"
  using assms
  by (auto simp: entered_at_def connect_def disconnect_def report_def prog_app client_call_app
        nth_append returns_normally_def split: option.splits)


text \<open>
  C7, as stated, fails: with a logger that throws on the message that reports the
  connection, \<open>connect\<close> on a driver whose calls all return ends with the status error
  and returns \<open>success: false\<close>.
\<close>

theorem C7_counterexample:
  "fails quiet_driver ClientConnect = None \<and>
   fails quiet_driver (ClientDb (dbName (example_mongo\<lparr>logger := picky_logger\<rparr>))) = None \<and>
   fst (connect quiet_driver (example_mongo\<lparr>logger := picky_logger\<rparr>)) =
     Inr (failure (Error ''logger down'')) \<and>
   connectionStatus (snd (connect quiet_driver (example_mongo\<lparr>logger := picky_logger\<rparr>))) = ERROR"
  by (simp add: connect_def report_def prog_app client_call_app quiet_driver_def
        example_mongo_def picky_logger_def)

text \<open>
  C7, amended. \<open>connect\<close> sets the status to connecting on entry: at the first moment
  control leaves the adapter the status is connecting. When the \<open>info\<close> and \<open>error\<close>
  methods of the adapter's logger return normally: the driver is asked to connect in
  status connecting; when the driver's connect and db calls return, the status is
  connected, the database handle is set, the reconnect attempts are 0 and the envelope
  is \<open>success: true\<close>; when one of them throws, the status is error and the envelope is
  \<open>success: false\<close> with the error; and \<open>disconnect\<close>, when the driver's close returns,
  sets the status to disconnected and clears the handle, and \<open>isConnected()\<close> is false
  afterwards.
\<close>

theorem C7_amended:
  "first_seen s (snd (connect drv s)) = CONNECTING \<and>
   (returns_normally (logger s) L_info \<and> returns_normally (logger s) L_error \<longrightarrow>
      entered_at s (snd (connect drv s)) = (ClientConnect, CONNECTING) \<and>
      (fails drv ClientConnect = None \<and> fails drv (ClientDb (dbName s)) = None \<longrightarrow>
         (let r = connect drv s; s' = snd r in
            fst r = Inr (ok_message ''Connected to MongoDB'') \<and>
            connectionStatus s' = CONNECTED \<and> db s' = Some (Db (dbName s)) \<and>
            reconnectAttempts s' = 0 \<and> isConnected s')) \<and>
      (fails drv ClientConnect = Some e \<or>
       (fails drv ClientConnect = None \<and> fails drv (ClientDb (dbName s)) = Some e) \<longrightarrow>
         (let r = connect drv s; s' = snd r in
            fst r = Inr (failure (as_Error
              (''Failed to connect to MongoDB: '' @ message_or_unknown e) e)) \<and>
            connectionStatus s' = ERROR \<and> db s' = db s \<and> \<not> isConnected s')) \<and>
      (fails drv ClientClose = None \<longrightarrow>
         (let r = disconnect drv s; s' = snd r in
            fst r = Inr (ok_message ''Disconnected from MongoDB'') \<and>
            connectionStatus s' = DISCONNECTED \<and> db s' = None \<and> \<not> isConnected s')))"
proof (intro conjI impI)
  show "first_seen s (snd (connect drv s)) = CONNECTING" by (rule first_seen_connect)
next
  assume q: "returns_normally (logger s) L_info \<and> returns_normally (logger s) L_error"
  show "entered_at s (snd (connect drv s)) = (ClientConnect, CONNECTING)"
    using q connect_quiet(1) by blast
next
  assume q: "returns_normally (logger s) L_info \<and> returns_normally (logger s) L_error"
    and d: "fails drv ClientConnect = None \<and> fails drv (ClientDb (dbName s)) = None"
  show "let r = connect drv s; s' = snd r in
            fst r = Inr (ok_message ''Connected to MongoDB'') \<and>
            connectionStatus s' = CONNECTED \<and> db s' = Some (Db (dbName s)) \<and>
            reconnectAttempts s' = 0 \<and> isConnected s'"
    using q d connect_quiet(2) [of s drv] by (simp add: Let_def isConnected_def)
next
  assume q: "returns_normally (logger s) L_info \<and> returns_normally (logger s) L_error"
    and d: "fails drv ClientConnect = Some e \<or>
            (fails drv ClientConnect = None \<and> fails drv (ClientDb (dbName s)) = Some e)"
  show "let r = connect drv s; s' = snd r in
            fst r = Inr (failure (as_Error
              (''Failed to connect to MongoDB: '' @ message_or_unknown e) e)) \<and>
            connectionStatus s' = ERROR \<and> db s' = db s \<and> \<not> isConnected s'"
    using q d connect_quiet(3) [of s drv e] by (simp add: Let_def isConnected_def)
next
  assume q: "returns_normally (logger s) L_info \<and> returns_normally (logger s) L_error"
    and d: "fails drv ClientClose = None"
  show "let r = disconnect drv s; s' = snd r in
            fst r = Inr (ok_message ''Disconnected from MongoDB'') \<and>
            connectionStatus s' = DISCONNECTED \<and> db s' = None \<and> \<not> isConnected s'"
    using q d connect_quiet(4) [of s drv] by (simp add: Let_def isConnected_def)
qed

theorem C7_amended_witness:
  "first_seen example_mongo (snd (connect quiet_driver example_mongo)) = CONNECTING \<and>
   returns_normally (logger example_mongo) L_info \<and>
   returns_normally (logger example_mongo) L_error \<and>
   fails quiet_driver ClientConnect = None \<and>
   fails quiet_driver (ClientDb (dbName example_mongo)) = None \<and>
   fst (connect quiet_driver example_mongo) = Inr (ok_message ''Connected to MongoDB'') \<and>
   connectionStatus (snd (connect quiet_driver example_mongo)) = CONNECTED \<and>
   isConnected (snd (connect quiet_driver example_mongo)) \<and>
   fails refusing_driver ClientConnect = Some (ThrownError (Error ''ECONNREFUSED'')) \<and>
   fst (connect refusing_driver example_mongo) = Inr (failure (Error ''ECONNREFUSED'')) \<and>
   connectionStatus (snd (connect refusing_driver example_mongo)) = ERROR \<and>
   fails quiet_driver ClientClose = None \<and>
   connectionStatus (snd (disconnect quiet_driver example_mongo)) = DISCONNECTED \<and>
   \<not> isConnected (snd (disconnect quiet_driver example_mongo))"
proof -
  have q: "fails quiet_driver ClientConnect = None \<and>
           fails quiet_driver (ClientDb (dbName example_mongo)) = None \<and>
           fails quiet_driver ClientClose = None"
    by (simp add: quiet_driver_def)
  have r: "fails refusing_driver ClientConnect = Some (ThrownError (Error ''ECONNREFUSED''))"
    by (simp add: refusing_driver_def quiet_driver_def)
  have l: "returns_normally (logger example_mongo) L_info \<and>
           returns_normally (logger example_mongo) L_error"
    by (simp add: returns_normally_def example_mongo_def createDefaultLogger_def)
  show ?thesis
    using q r l C7_amended [of example_mongo quiet_driver]
      C7_amended [of example_mongo refusing_driver "ThrownError (Error ''ECONNREFUSED'')"]
    by (simp add: Let_def)
qed

lemma example_firebase_constructed:
  "new_Firebase quiet_sdk firebase_options None = Inr example_firebase"
  by (simp add: new_Firebase_def Firebase_constructor_def prog_app sdk_call_app quiet_sdk_def
        Firebase_fields_def example_firebase_def firebase_options_def createDefaultLogger_def)

subsection \<open>Constructors\<close>

lemma MongoDB_constructor_moves:
  "MongoDB_moves (MongoDB_fields\<lparr>dbName := dbName_opt opts, logger := logger_or_default lg\<rparr>)
     (snd (MongoDB_constructor drv opts lg MongoDB_fields))"
proof -
  have w: "within MongoDB_moves
             (andThen (client_call drv (NewMongoClient (uri opts) (clientOptions opts)) ())
                (\<lambda>_. setupEventListeners drv))"
    unfolding setupEventListeners_def by (intro MongoDB_within)
  have "MongoDB_constructor drv opts lg MongoDB_fields =
        andThen (client_call drv (NewMongoClient (uri opts) (clientOptions opts)) ())
          (\<lambda>_. setupEventListeners drv)
          (MongoDB_fields\<lparr>dbName := dbName_opt opts, logger := logger_or_default lg\<rparr>)"
    by (simp add: MongoDB_constructor_def assign_app andThen_app)
  then show ?thesis using w by (simp add: within_def)
qed

lemma MongoDB_constructor_never:
  "never_reconnecting (snd (MongoDB_constructor drv opts lg MongoDB_fields)) \<and>
   reconnectAttempts (snd (MongoDB_constructor drv opts lg MongoDB_fields)) = 0 \<and>
   maxReconnectAttempts (snd (MongoDB_constructor drv opts lg MongoDB_fields)) = 5"
  using MongoDB_constructor_moves [where opts = opts and lg = lg and drv = drv]
  by (auto simp: MongoDB_moves_def never_reconnecting_def MongoDB_fields_def)

lemma new_MongoDB_state:
  assumes "new_MongoDB drv opts lg = Inr s"
  shows "s = snd (MongoDB_constructor drv opts lg MongoDB_fields)"
  using assms by (auto simp: new_MongoDB_def split: prod.splits sum.splits)

lemma Firebase_constructor_status:
  "fb_connectionStatus (snd (Firebase_constructor k opts lg Firebase_fields)) \<in> {CONNECTED, ERROR} \<and>
   Firebase_never_reconnecting (snd (Firebase_constructor k opts lg Firebase_fields))"
  by (simp add: Firebase_constructor_def prog_app sdk_call_app Firebase_fields_def
        Firebase_never_reconnecting_def split: option.splits)

lemma new_Firebase_state:
  assumes "new_Firebase k opts lg = Inr f"
  shows "f = snd (Firebase_constructor k opts lg Firebase_fields)"
  using assms by (auto simp: new_Firebase_def split: prod.splits sum.splits)

lemma new_Firebase_ready:
  assumes "new_Firebase k opts lg = Inr f"
  shows "firestore f = Some Firestore \<and> fb_connectionStatus f = CONNECTED \<and> isInitialized f \<and>
         sdk_calls f = (if apps_length k = 0
                        then [CredentialCert (serviceAccount opts), InitializeApp opts,
                              AdminFirestore]
                        else [AdminFirestore])"
  using assms
  by (auto simp: new_Firebase_def Firebase_constructor_def prog_app sdk_call_app
        Firebase_fields_def split: option.splits if_splits)

text \<open>
  C8. Neither adapter is ever in the status \<open>reconnecting\<close>. After any history of
  operations and driver events on a constructed MongoDB adapter, and after any history
  of operations on a constructed Firebase adapter, the status is one of disconnected,
  connecting, connected and error, and so it was at every moment control left the
  adapter meanwhile (each call of the driver or SDK and each call of the logger),
  which are the moments at which other code can read the status. This also holds for
  objects whose constructor threw, and every single operation or event keeps it. The
  counter \<open>reconnectAttempts\<close> is 0 throughout: every operation and event leaves it as
  it is or sets it to 0. No operation or event reads \<open>maxReconnectAttempts\<close>: with
  another value in that field everything comes out the same, and the field keeps its
  value 5.
\<close>

theorem C8:
  "(new_MongoDB drv0 opts lg = Inr s0 \<longrightarrow>
      connectionStatus (MongoDB_after history s0) \<in> {DISCONNECTED, CONNECTING, CONNECTED, ERROR} \<and>
      connectionStatus (MongoDB_after history s0) \<noteq> RECONNECTING \<and>
      never_reconnecting (MongoDB_after history s0) \<and>
      reconnectAttempts (MongoDB_after history s0) = 0 \<and>
      maxReconnectAttempts (MongoDB_after history s0) = 5) \<and>
   (new_Firebase k0 fopts flg = Inr f0 \<longrightarrow>
      fb_connectionStatus (Firebase_after fhistory f0) \<in>
        {DISCONNECTED, CONNECTING, CONNECTED, ERROR} \<and>
      fb_connectionStatus (Firebase_after fhistory f0) \<noteq> RECONNECTING \<and>
      Firebase_never_reconnecting (Firebase_after fhistory f0)) \<and>
   fb_connectionStatus (snd (Firebase_constructor k0 fopts flg Firebase_fields)) \<noteq> RECONNECTING \<and>
   Firebase_never_reconnecting (snd (Firebase_constructor k0 fopts flg Firebase_fields)) \<and>
   never_reconnecting (snd (MongoDB_constructor drv0 opts lg MongoDB_fields)) \<and>
   (never_reconnecting s \<longrightarrow> never_reconnecting (snd (MongoDB_do drv a s))) \<and>
   (Firebase_never_reconnecting f \<longrightarrow> Firebase_never_reconnecting (snd (Firebase_do k b f))) \<and>
   (reconnectAttempts (snd (MongoDB_do drv a s)) = reconnectAttempts s \<or>
    reconnectAttempts (snd (MongoDB_do drv a s)) = 0) \<and>
   MongoDB_do drv a (s\<lparr>maxReconnectAttempts := n\<rparr>) =
     (fst (MongoDB_do drv a s), (snd (MongoDB_do drv a s))\<lparr>maxReconnectAttempts := n\<rparr>)"
proof (intro conjI impI)
  assume c: "new_MongoDB drv0 opts lg = Inr s0"
  have s0: "never_reconnecting s0 \<and> reconnectAttempts s0 = 0 \<and> maxReconnectAttempts s0 = 5"
    using MongoDB_constructor_never [of drv0 opts lg] new_MongoDB_state [OF c] by simp
  have m: "MongoDB_moves s0 (MongoDB_after history s0)" by (rule MongoDB_after_moves)
  show n: "never_reconnecting (MongoDB_after history s0)"
    using m s0 by (simp add: MongoDB_moves_def)
  then show r: "connectionStatus (MongoDB_after history s0) \<noteq> RECONNECTING"
    by (simp add: never_reconnecting_def)
  then show "connectionStatus (MongoDB_after history s0) \<in>
               {DISCONNECTED, CONNECTING, CONNECTED, ERROR}"
    by (cases "connectionStatus (MongoDB_after history s0)") simp_all
  show "reconnectAttempts (MongoDB_after history s0) = 0"
    using m s0 by (auto simp: MongoDB_moves_def)
  show "maxReconnectAttempts (MongoDB_after history s0) = 5"
    using m s0 by (simp add: MongoDB_moves_def)
next
  assume c: "new_Firebase k0 fopts flg = Inr f0"
  have f0: "fb_connectionStatus f0 = CONNECTED \<and> Firebase_never_reconnecting f0"
    using new_Firebase_ready [OF c] Firebase_constructor_status [of k0 fopts flg]
      new_Firebase_state [OF c] by simp
  have m: "Firebase_moves f0 (Firebase_after fhistory f0)" by (rule Firebase_after_moves)
  have s: "fb_connectionStatus (Firebase_after fhistory f0) = CONNECTED"
    using m f0 by (simp add: Firebase_moves_def)
  show "fb_connectionStatus (Firebase_after fhistory f0) \<in>
          {DISCONNECTED, CONNECTING, CONNECTED, ERROR}"
    using s by simp
  show "fb_connectionStatus (Firebase_after fhistory f0) \<noteq> RECONNECTING"
    using s by simp
  show "Firebase_never_reconnecting (Firebase_after fhistory f0)"
    using m f0 by (simp add: Firebase_moves_def)
next
  show "fb_connectionStatus (snd (Firebase_constructor k0 fopts flg Firebase_fields)) \<noteq> RECONNECTING"
    using Firebase_constructor_status [of k0 fopts flg] by auto
  show "Firebase_never_reconnecting (snd (Firebase_constructor k0 fopts flg Firebase_fields))"
    using Firebase_constructor_status [of k0 fopts flg] by simp
  show "never_reconnecting (snd (MongoDB_constructor drv0 opts lg MongoDB_fields))"
    using MongoDB_constructor_never [of drv0 opts lg] by simp
next
  assume "never_reconnecting s"
  then show "never_reconnecting (snd (MongoDB_do drv a s))"
    using MongoDB_do_moves [of s drv a] by (simp add: MongoDB_moves_def)
next
  assume "Firebase_never_reconnecting f"
  then show "Firebase_never_reconnecting (snd (Firebase_do k b f))"
    using Firebase_do_moves [of f k b] by (simp add: Firebase_moves_def)
next
  show "reconnectAttempts (snd (MongoDB_do drv a s)) = reconnectAttempts s \<or>
        reconnectAttempts (snd (MongoDB_do drv a s)) = 0"
    using MongoDB_do_moves [of s drv a] by (simp add: MongoDB_moves_def)
next
  show "MongoDB_do drv a (s\<lparr>maxReconnectAttempts := n\<rparr>) =
        (fst (MongoDB_do drv a s), (snd (MongoDB_do drv a s))\<lparr>maxReconnectAttempts := n\<rparr>)"
    by (rule MongoDB_do_ignores_max)
qed

theorem C8_witness:
  "new_MongoDB quiet_driver mongo_options None = Inr example_mongo \<and>
   never_reconnecting (MongoDB_after
     [(refusing_driver, Connect), (quiet_driver, Emit serverOpening), (quiet_driver, Connect),
      (quiet_driver, InsertOne ''users'' []), (quiet_driver, Emit serverClosed)]
     example_mongo) \<and>
   reconnectAttempts (MongoDB_after
     [(refusing_driver, Connect), (quiet_driver, Emit serverOpening), (quiet_driver, Connect),
      (quiet_driver, InsertOne ''users'' []), (quiet_driver, Emit serverClosed)]
     example_mongo) = 0 \<and>
   new_Firebase quiet_sdk firebase_options None = Inr example_firebase \<and>
   Firebase_never_reconnecting (Firebase_after
     [(quiet_sdk, F_getDocument ''users/u1''), (quiet_sdk, F_deleteDocument ''users/u1'')]
     example_firebase) \<and>
   never_reconnecting example_mongo \<and>
   never_reconnecting (snd (MongoDB_do quiet_driver Connect example_mongo)) \<and>
   Firebase_never_reconnecting example_firebase \<and>
   Firebase_never_reconnecting
     (snd (Firebase_do quiet_sdk (F_getDocument ''users/u1'') example_firebase))"
proof -
  have m: "new_MongoDB quiet_driver mongo_options None = Inr example_mongo"
    using example_mongo_constructed [of None] by (simp add: example_mongo_def)
  have n: "never_reconnecting example_mongo \<and> Firebase_never_reconnecting example_firebase"
    by (simp add: never_reconnecting_def Firebase_never_reconnecting_def example_mongo_def
          example_firebase_def)
  show ?thesis
    using m n example_firebase_constructed
      C8 [of quiet_driver mongo_options None example_mongo
            "[(refusing_driver, Connect), (quiet_driver, Emit serverOpening),
              (quiet_driver, Connect), (quiet_driver, InsertOne ''users'' []),
              (quiet_driver, Emit serverClosed)]"
            quiet_sdk firebase_options None example_firebase
            "[(quiet_sdk, F_getDocument ''users/u1''), (quiet_sdk, F_deleteDocument ''users/u1'')]"
            example_mongo quiet_driver Connect example_firebase quiet_sdk
            "F_getDocument ''users/u1''"]
    by blast
qed

subsection \<open>Handlers that return\<close>




















text \<open>
  C2, as stated, fails: with neither \<open>mongodb\<close> nor \<open>firebase\<close> configured the
  constructor of DB throws.
\<close>

theorem C2_counterexample:
  "new_DB quiet_driver quiet_sdk
     \<lparr>opt_mongodb = None, opt_firebase = None, opt_logger = None\<rparr> =
     Inl (ThrownError (Error
       ''At least one database configuration (mongodb or firebase) must be provided''))"
  by (simp add: new_DB_def DB_constructor_def prog_app)

text \<open>
  C2, amended. With neither option the constructor throws "At least one database
  configuration (mongodb or firebase) must be provided". With at least one option,
  when the constructor of each configured adapter returns and the \<open>info\<close> method of the
  logger returns normally, the constructor of DB returns and the object holds exactly
  the configured adapters; whenever it returns, the object holds exactly the configured
  adapters. When the constructor of a configured adapter throws and the \<open>error\<close> method
  of the logger returns normally, the constructor of DB throws the same value.
\<close>

theorem C2_amended:
  "(opt_mongodb opts = None \<and> opt_firebase opts = None \<longrightarrow>
      new_DB drv k opts = Inl (ThrownError (Error
        ''At least one database configuration (mongodb or firebase) must be provided''))) \<and>
   ((opt_mongodb opts \<noteq> None \<or> opt_firebase opts \<noteq> None) \<and>
    returns_normally (logger_or_default (opt_logger opts)) L_info \<and>
    (\<forall>mo. opt_mongodb opts = Some mo \<longrightarrow>
       \<not> isl (new_MongoDB drv mo (Some (logger_or_default (opt_logger opts))))) \<and>
    (\<forall>fo. opt_firebase opts = Some fo \<longrightarrow>
       \<not> isl (new_Firebase k fo (Some (logger_or_default (opt_logger opts))))) \<longrightarrow>
      new_DB drv k opts =
        Inr \<lparr>mongo = map_option
               (\<lambda>mo. projr (new_MongoDB drv mo (Some (logger_or_default (opt_logger opts)))))
               (opt_mongodb opts),
             firebase = map_option
               (\<lambda>fo. projr (new_Firebase k fo (Some (logger_or_default (opt_logger opts)))))
               (opt_firebase opts),
             db_logger = logger_or_default (opt_logger opts)\<rparr>) \<and>
   (new_DB drv k opts = Inr d \<longrightarrow>
      (mongo d = None) = (opt_mongodb opts = None) \<and>
      (firebase d = None) = (opt_firebase opts = None)) \<and>
   (opt_mongodb opts = Some mo \<and>
    new_MongoDB drv mo (Some (logger_or_default (opt_logger opts))) = Inl e \<and>
    returns_normally (logger_or_default (opt_logger opts)) L_error \<longrightarrow>
      new_DB drv k opts = Inl e) \<and>
   (opt_firebase opts = Some fo \<and>
    new_Firebase k fo (Some (logger_or_default (opt_logger opts))) = Inl e \<and>
    returns_normally (logger_or_default (opt_logger opts)) L_info \<and>
    returns_normally (logger_or_default (opt_logger opts)) L_error \<and>
    (\<forall>mo. opt_mongodb opts = Some mo \<longrightarrow>
       \<not> isl (new_MongoDB drv mo (Some (logger_or_default (opt_logger opts))))) \<longrightarrow>
      new_DB drv k opts = Inl e)"
  by (cases "opt_mongodb opts"; cases "opt_firebase opts")
     (auto simp: new_DB_def DB_constructor_def prog_app construct_app DB_fields_def
        returns_normally_def split: sum.splits option.splits)
text \<open>
  C4, as stated, fails: the constructor of the Firebase adapter itself initialises the
  SDK and takes the Firestore handle.
\<close>

theorem C4_counterexample:
  "new_Firebase quiet_sdk firebase_options None = Inr example_firebase \<and>
   firestore example_firebase = Some Firestore \<and> isInitialized example_firebase \<and>
   sdk_calls example_firebase =
     [CredentialCert ''test-project'', InitializeApp firebase_options, AdminFirestore]"
  using example_firebase_constructed by (simp add: example_firebase_def)

text \<open>
  C4, amended. The Firebase adapter obtains its SDK handle in the constructor: a
  constructor that returns has called \<open>admin.firestore()\<close>, preceded by
  \<open>admin.initializeApp\<close> exactly when no app was registered, holds the handle, and has
  \<open>isInitialized\<close> true and status connected. No later operation changes the handle or
  \<open>isInitialized\<close>, or makes an initialising call.
\<close>

theorem C4_amended:
  "(new_Firebase k opts lg = Inr f \<longrightarrow>
      firestore f = Some Firestore \<and> isInitialized f \<and> fb_connectionStatus f = CONNECTED \<and>
      sdk_calls f = (if apps_length k = 0
                     then [CredentialCert (serviceAccount opts), InitializeApp opts,
                           AdminFirestore]
                     else [AdminFirestore])) \<and>
   firestore (snd (Firebase_do k' a s)) = firestore s \<and>
   isInitialized (snd (Firebase_do k' a s)) = isInitialized s \<and>
   filter initialising (sdk_calls (snd (Firebase_do k' a s))) =
     filter initialising (sdk_calls s)"
  using new_Firebase_ready [of k opts lg f] Firebase_do_moves [of s k' a]
  by (simp add: Firebase_moves_def)

text \<open>
  C10. \<open>DB.isConnected()\<close> is true exactly when every configured adapter's
  \<open>isConnected()\<close> is true; an adapter that is not configured counts as connected, so
  with one adapter the result is that adapter's, and with none it is true.
\<close>

theorem C10:
  "DB_isConnected d =
     ((\<forall>m. mongo d = Some m \<longrightarrow> isConnected m) \<and>
      (\<forall>f. firebase d = Some f \<longrightarrow> Firebase_isConnected f)) \<and>
   (firebase d = None \<longrightarrow> mongo d = Some m \<longrightarrow> DB_isConnected d = isConnected m) \<and>
   (mongo d = None \<longrightarrow> firebase d = Some f \<longrightarrow> DB_isConnected d = Firebase_isConnected f) \<and>
   (mongo d = None \<longrightarrow> firebase d = None \<longrightarrow> DB_isConnected d)"
  by (auto simp: DB_isConnected_def split: option.splits)


lemma Firebase_reachable_handle:
  assumes "new_Firebase k0 fo lg = Inr f0"
  shows "firestore (Firebase_after history f0) = Some Firestore \<and>
         Firebase_isConnected (Firebase_after history f0)"
  using new_Firebase_ready [OF assms] Firebase_after_moves [of f0 history]
  by (simp add: Firebase_moves_def Firebase_isConnected_def)

text \<open>
  C9, as stated, fails: on a connected adapter whose logger throws on \<open>debug\<close>,
  \<open>getDocument\<close> on a path without a document returns \<open>success: false\<close> although no
  SDK call threw.
\<close>

theorem C9_counterexample:
  "new_Firebase quiet_sdk firebase_options (Some debug_failing_logger) =
     Inr (example_firebase\<lparr>fb_logger := debug_failing_logger\<rparr>) \<and>
   Firebase_isConnected (example_firebase\<lparr>fb_logger := debug_failing_logger\<rparr>) \<and>
   sdk_fails quiet_sdk (FirestoreDoc ''users/u1'') = None \<and>
   sdk_fails quiet_sdk (RefGet ''users/u1'') = None \<and>
   \<not> snap_exists (get_result quiet_sdk (RefGet ''users/u1'')) \<and>
   fst (Firebase_getDocument quiet_sdk ''users/u1''
          (example_firebase\<lparr>fb_logger := debug_failing_logger\<rparr>)) =
     Inr (failure (Error ''logger down''))"
  by (simp add: new_Firebase_def Firebase_constructor_def Firebase_getDocument_def
        fb_report_def require_initialized_def firestore_call_def prog_app sdk_call_app
        quiet_sdk_def Firebase_fields_def example_firebase_def firebase_options_def
        debug_failing_logger_def Firebase_isConnected_def)

text \<open>
  C9, amended. On an adapter that holds its handle and whose logger's \<open>debug\<close> method
  returns normally, \<open>getDocument\<close> on a path whose snapshot does not exist returns
  \<open>{success: true, data: null}\<close>, provided the adapter is connected and the SDK calls
  return; and an envelope with \<open>success: false\<close> comes only from an adapter that is not
  connected or from an SDK call that threw. Every adapter that a constructor returned,
  after any history of operations, holds its handle.
\<close>

theorem C9_amended:
  "(firestore s \<noteq> None \<and> returns_normally (fb_logger s) L_debug \<longrightarrow>
      (Firebase_isConnected s \<and>
       sdk_fails k (FirestoreDoc documentPath) = None \<and>
       sdk_fails k (RefGet documentPath) = None \<and>
       \<not> snap_exists (get_result k (RefGet documentPath)) \<longrightarrow>
         fst (Firebase_getDocument k documentPath s) =
           Inr \<lparr>success = True, data = Some None, error = None, message = None\<rparr>) \<and>
      (fst (Firebase_getDocument k documentPath s) = Inr r \<and> \<not> success r \<longrightarrow>
         \<not> Firebase_isConnected s \<or>
         sdk_fails k (FirestoreDoc documentPath) \<noteq> None \<or>
         sdk_fails k (RefGet documentPath) \<noteq> None)) \<and>
   (new_Firebase k0 fo lg = Inr f0 \<longrightarrow> firestore (Firebase_after history f0) \<noteq> None)"
proof (intro conjI impI)
  assume "new_Firebase k0 fo lg = Inr f0"
  then show "firestore (Firebase_after history f0) \<noteq> None"
    using Firebase_reachable_handle [of k0 fo lg f0 history] by simp
qed (auto simp: Firebase_getDocument_def fb_report_def require_initialized_def
        firestore_call_def prog_app sdk_call_app ok_data_def failure_def if_app
        returns_normally_def split: option.splits if_splits)








subsection \<open>The facade and the Firebase adapter\<close>

lemma same_firebase_refl: "reflp (\<lambda>d d'. firebase d' = firebase d)"
  by (simp add: reflp_def)

lemma same_firebase_trans: "transp (\<lambda>d d'. firebase d' = firebase d)"
  by (simp add: transp_def)

lemma within_on_mongo: "within (\<lambda>d d'. firebase d' = firebase d) (on_mongo p m)"
proof -
  have "firebase (snd (on_mongo p m d)) = firebase d" for d
    by (cases "p m") (simp add: on_mongo_def)
  then show ?thesis by (simp add: within_def)
qed

lemma within_db_log: "within (\<lambda>d d'. firebase d' = firebase d) (db_log level msg)"
  by (simp add: within_def db_log_app)

lemmas same_firebase =
  within_ret [OF same_firebase_refl] within_reads [OF same_firebase_refl] within_db_log
  within_andThen [OF same_firebase_trans] within_try_catch [OF same_firebase_trans]
  within_if within_case_option within_let within_on_mongo

lemma DB_connect_same_firebase: "within (\<lambda>d d'. firebase d' = firebase d) (DB_connect drv)"
  unfolding DB_connect_def connect_mongo_def connect_firebase_def
  by (intro same_firebase)

lemma DB_disconnect_same_firebase: "within (\<lambda>d d'. firebase d' = firebase d) (DB_disconnect drv)"
  unfolding DB_disconnect_def disconnect_mongo_def disconnect_firebase_def
  by (intro same_firebase)

lemma DB_getHealthStatus_same: "snd (DB_getHealthStatus d) = d"
  by (simp add: DB_getHealthStatus_def prog_app split: option.splits)

text \<open>
  C5. ConnectionStatus has exactly the five values disconnected, connecting, connected,
  reconnecting and error. Each adapter has its own status: an operation on the MongoDB
  adapter, and the facade's connect and disconnect, leave the Firebase adapter as it
  is, and an operation on the Firebase adapter leaves the MongoDB adapter as it is.
\<close>

theorem C5:
  "(UNIV :: ConnectionStatus set) = {DISCONNECTED, CONNECTING, CONNECTED, RECONNECTING, ERROR} \<and>
   distinct [DISCONNECTED, CONNECTING, CONNECTED, RECONNECTING, ERROR] \<and>
   map status_value [DISCONNECTED, CONNECTING, CONNECTED, RECONNECTING, ERROR] =
     [''disconnected'', ''connecting'', ''connected'', ''reconnecting'', ''error''] \<and>
   firebase (DB_after_action (On_mongo drv a) d) = firebase d \<and>
   firebase (DB_after_action (DB_Connect drv) d) = firebase d \<and>
   firebase (DB_after_action (DB_Disconnect drv) d) = firebase d \<and>
   mongo (DB_after_action (On_firebase k b) d) = mongo d \<and>
   DB_after_action DB_GetHealthStatus d = d"
proof (intro conjI)
  show "(UNIV :: ConnectionStatus set) =
          {DISCONNECTED, CONNECTING, CONNECTED, RECONNECTING, ERROR}"
  proof
    show "UNIV \<subseteq> {DISCONNECTED, CONNECTING, CONNECTED, RECONNECTING, ERROR}"
    proof
      fix x :: ConnectionStatus
      show "x \<in> {DISCONNECTED, CONNECTING, CONNECTED, RECONNECTING, ERROR}"
        by (cases x) simp_all
    qed
  qed simp
  show "firebase (DB_after_action (On_mongo drv a) d) = firebase d"
    by (cases "mongo d") simp_all
  show "firebase (DB_after_action (DB_Connect drv) d) = firebase d"
    using DB_connect_same_firebase [of drv] by (simp add: within_def)
  show "firebase (DB_after_action (DB_Disconnect drv) d) = firebase d"
    using DB_disconnect_same_firebase [of drv] by (simp add: within_def)
  show "mongo (DB_after_action (On_firebase k b) d) = mongo d"
    by (cases "firebase d") simp_all
  show "DB_after_action DB_GetHealthStatus d = d"
    by (simp add: DB_getHealthStatus_same)
qed simp_all

theorem C5_witness:
  "map_option connectionStatus
     (mongo (DB_after_action (DB_Connect quiet_driver) example_db)) = Some CONNECTED \<and>
   map_option connectionStatus (mongo example_db) = Some DISCONNECTED \<and>
   firebase (DB_after_action (DB_Connect quiet_driver) example_db) = firebase example_db \<and>
   mongo (DB_after_action (On_firebase quiet_sdk (F_getDocument ''users/u1'')) example_db)
     = mongo example_db"
proof -
  have "map_option connectionStatus
     (mongo (DB_after_action (DB_Connect quiet_driver) example_db)) = Some CONNECTED"
    by (simp add: DB_connect_def connect_mongo_def connect_firebase_def on_mongo_def connect_def
          prog_app client_call_app quiet_driver_def example_db_def example_mongo_def
          example_firebase_def Firebase_isConnected_def Object_values_def Let_def
          ok_message_def ok_data_def createDefaultLogger_def)
  moreover have "map_option connectionStatus (mongo example_db) = Some DISCONNECTED"
    by (simp add: example_db_def example_mongo_def)
  ultimately show ?thesis
    using C5 [of quiet_driver _ example_db quiet_sdk "F_getDocument ''users/u1''"] by simp
qed

lemma default_logger_quiet: "returns_normally (logger_or_default None) level"
  by (simp add: returns_normally_def createDefaultLogger_def)

lemma example_mongo_default:
  "new_MongoDB quiet_driver mongo_options (Some (logger_or_default None)) = Inr example_mongo"
  using example_mongo_constructed [of "Some createDefaultLogger"]
  by (simp add: example_mongo_def)

lemma example_firebase_default:
  "new_Firebase quiet_sdk firebase_options (Some (logger_or_default None)) = Inr example_firebase"
  by (simp add: new_Firebase_def Firebase_constructor_def prog_app sdk_call_app quiet_sdk_def
        Firebase_fields_def example_firebase_def firebase_options_def createDefaultLogger_def)

lemma rejecting_driver_throws:
  "new_MongoDB rejecting_driver mongo_options lg = Inl (ThrownError (Error ''Invalid scheme''))"
  by (simp add: new_MongoDB_def MongoDB_constructor_def prog_app client_call_app
        rejecting_driver_def quiet_driver_def)

lemma uninitialisable_sdk_throws:
  "new_Firebase uninitialisable_sdk firebase_options (Some (logger_or_default None)) =
     Inl (ThrownError (Error ''app/no-app''))"
  by (simp add: new_Firebase_def Firebase_constructor_def prog_app sdk_call_app
        uninitialisable_sdk_def quiet_sdk_def Firebase_fields_def createDefaultLogger_def)

theorem C2_amended_witness:
  "returns_normally (logger_or_default None) L_info \<and>
   returns_normally (logger_or_default None) L_error \<and>
   new_DB quiet_driver quiet_sdk
     \<lparr>opt_mongodb = Some mongo_options, opt_firebase = Some firebase_options,
      opt_logger = None\<rparr> = Inr example_db \<and>
   new_DB quiet_driver quiet_sdk
     \<lparr>opt_mongodb = Some mongo_options, opt_firebase = None, opt_logger = None\<rparr> =
     Inr \<lparr>mongo = Some example_mongo, firebase = None, db_logger = createDefaultLogger\<rparr> \<and>
   new_DB quiet_driver quiet_sdk
     \<lparr>opt_mongodb = None, opt_firebase = Some firebase_options, opt_logger = None\<rparr> =
     Inr \<lparr>mongo = None, firebase = Some example_firebase, db_logger = createDefaultLogger\<rparr> \<and>
   new_DB rejecting_driver quiet_sdk
     \<lparr>opt_mongodb = Some mongo_options, opt_firebase = None, opt_logger = None\<rparr> =
     Inl (ThrownError (Error ''Invalid scheme'')) \<and>
   new_DB quiet_driver uninitialisable_sdk
     \<lparr>opt_mongodb = Some mongo_options, opt_firebase = Some firebase_options,
      opt_logger = None\<rparr> =
     Inl (ThrownError (Error ''app/no-app''))"
  using default_logger_quiet [of L_info] default_logger_quiet [of L_error]
    example_mongo_default example_firebase_default
    rejecting_driver_throws [of "Some (logger_or_default None)"] uninitialisable_sdk_throws
    C2_amended [of "\<lparr>opt_mongodb = Some mongo_options, opt_firebase = Some firebase_options,
                     opt_logger = None\<rparr>" quiet_driver quiet_sdk]
    C2_amended [of "\<lparr>opt_mongodb = Some mongo_options, opt_firebase = None,
                     opt_logger = None\<rparr>" quiet_driver quiet_sdk]
    C2_amended [of "\<lparr>opt_mongodb = None, opt_firebase = Some firebase_options,
                     opt_logger = None\<rparr>" quiet_driver quiet_sdk]
    C2_amended [of "\<lparr>opt_mongodb = Some mongo_options, opt_firebase = None,
                     opt_logger = None\<rparr>"
                   rejecting_driver quiet_sdk _ mongo_options "ThrownError (Error ''Invalid scheme'')"]
    C2_amended [of "\<lparr>opt_mongodb = Some mongo_options, opt_firebase = Some firebase_options,
                     opt_logger = None\<rparr>"
                   quiet_driver uninitialisable_sdk _ _ "ThrownError (Error ''app/no-app'')"
                   firebase_options]
  by (simp add: example_db_def)

theorem C4_amended_witness:
  "new_Firebase quiet_sdk firebase_options None = Inr example_firebase \<and>
   fb_connectionStatus example_firebase = CONNECTED \<and>
   firestore (snd (Firebase_do quiet_sdk (F_getDocument ''users/u1'') example_firebase)) =
     Some Firestore \<and>
   filter initialising
     (sdk_calls (snd (Firebase_do quiet_sdk (F_getDocument ''users/u1'') example_firebase))) =
     [CredentialCert ''test-project'', InitializeApp firebase_options, AdminFirestore]"
proof -
  have t: "firestore (snd (Firebase_do quiet_sdk (F_getDocument ''users/u1'') example_firebase))
             = firestore example_firebase \<and>
           filter initialising (sdk_calls
             (snd (Firebase_do quiet_sdk (F_getDocument ''users/u1'') example_firebase)))
             = filter initialising (sdk_calls example_firebase)"
    using C4_amended [of quiet_sdk firebase_options None example_firebase quiet_sdk
                         "F_getDocument ''users/u1''" example_firebase]
    by blast
  have e: "firestore example_firebase = Some Firestore \<and>
           fb_connectionStatus example_firebase = CONNECTED \<and>
           filter initialising (sdk_calls example_firebase) =
             [CredentialCert ''test-project'', InitializeApp firebase_options, AdminFirestore]"
    by (simp add: example_firebase_def)
  show ?thesis using example_firebase_constructed t e by simp
qed

theorem C9_amended_witness:
  "firestore example_firebase \<noteq> None \<and> returns_normally (fb_logger example_firebase) L_debug \<and>
   Firebase_isConnected example_firebase \<and>
   sdk_fails quiet_sdk (FirestoreDoc ''users/u1'') = None \<and>
   sdk_fails quiet_sdk (RefGet ''users/u1'') = None \<and>
   \<not> snap_exists (get_result quiet_sdk (RefGet ''users/u1'')) \<and>
   fst (Firebase_getDocument quiet_sdk ''users/u1'' example_firebase) =
     Inr \<lparr>success = True, data = Some None, error = None, message = None\<rparr> \<and>
   fst (Firebase_getDocument unavailable_sdk ''users/u1'' example_firebase) =
     Inr (failure (Error ''UNAVAILABLE'')) \<and>
   sdk_fails unavailable_sdk (RefGet ''users/u1'') \<noteq> None \<and>
   new_Firebase quiet_sdk firebase_options None = Inr example_firebase \<and>
   firestore (Firebase_after [(quiet_sdk, F_deleteDocument ''users/u1'')] example_firebase) \<noteq> None"
proof -
  have a: "firestore example_firebase \<noteq> None \<and>
           returns_normally (fb_logger example_firebase) L_debug \<and>
           Firebase_isConnected example_firebase \<and>
           sdk_fails quiet_sdk (FirestoreDoc ''users/u1'') = None \<and>
           sdk_fails quiet_sdk (RefGet ''users/u1'') = None \<and>
           \<not> snap_exists (get_result quiet_sdk (RefGet ''users/u1''))"
    by (simp add: example_firebase_def Firebase_isConnected_def quiet_sdk_def
          returns_normally_def createDefaultLogger_def)
  have b: "fst (Firebase_getDocument unavailable_sdk ''users/u1'' example_firebase) =
             Inr (failure (Error ''UNAVAILABLE''))"
    by (simp add: Firebase_getDocument_def fb_report_def require_initialized_def
          firestore_call_def prog_app sdk_call_app unavailable_sdk_def quiet_sdk_def
          example_firebase_def Firebase_isConnected_def createDefaultLogger_def)
  have c: "sdk_fails unavailable_sdk (FirestoreDoc ''users/u1'') = None \<and>
           \<not> success (failure (Error ''UNAVAILABLE'') :: Document option OperationResult)"
    by (simp add: unavailable_sdk_def quiet_sdk_def failure_def)
  have 1: "fst (Firebase_getDocument quiet_sdk ''users/u1'' example_firebase) =
             Inr \<lparr>success = True, data = Some None, error = None, message = None\<rparr>"
    using a C9_amended [of example_firebase quiet_sdk "''users/u1''"] by blast
  have 2: "sdk_fails unavailable_sdk (RefGet ''users/u1'') \<noteq> None"
    using a b c
      C9_amended [of example_firebase unavailable_sdk "''users/u1''"
                     "failure (Error ''UNAVAILABLE'')"]
    by blast
  have 3: "firestore (Firebase_after [(quiet_sdk, F_deleteDocument ''users/u1'')]
             example_firebase) \<noteq> None"
    using example_firebase_constructed
      C9_amended [of _ _ _ _ quiet_sdk firebase_options None example_firebase
                     "[(quiet_sdk, F_deleteDocument ''users/u1'')]"]
    by blast
  show ?thesis using a b 1 2 3 example_firebase_constructed by blast
qed

theorem C10_witness:
  "DB_isConnected \<lparr>mongo = Some example_mongo, firebase = None,
                   db_logger = createDefaultLogger\<rparr> = isConnected example_mongo \<and>
   \<not> DB_isConnected \<lparr>mongo = Some example_mongo, firebase = None,
                     db_logger = createDefaultLogger\<rparr> \<and>
   DB_isConnected \<lparr>mongo = None, firebase = Some example_firebase,
                   db_logger = createDefaultLogger\<rparr> = Firebase_isConnected example_firebase \<and>
   DB_isConnected \<lparr>mongo = None, firebase = Some example_firebase,
                   db_logger = createDefaultLogger\<rparr> \<and>
   DB_isConnected \<lparr>mongo = None, firebase = None, db_logger = createDefaultLogger\<rparr> \<and>
   \<not> DB_isConnected example_db"
proof -
  have "\<not> isConnected example_mongo" by (simp add: isConnected_def example_mongo_def)
  moreover have "Firebase_isConnected example_firebase"
    by (simp add: Firebase_isConnected_def example_firebase_def)
  ultimately show ?thesis
    using C10 [of "\<lparr>mongo = Some example_mongo, firebase = None,
                    db_logger = createDefaultLogger\<rparr>" example_mongo]
      C10 [of "\<lparr>mongo = None, firebase = Some example_firebase,
                db_logger = createDefaultLogger\<rparr>" _ example_firebase]
      C10 [of "\<lparr>mongo = None, firebase = None, db_logger = createDefaultLogger\<rparr>"]
      C10 [of example_db]
    by (simp add: example_db_def)
qed



end
